theory Spec2Isabelle
  imports Complex_Main "HOL-Library.Sublist"
begin

section \<open>JavaScript numbers\<close>

text \<open>
  The bot computes with JavaScript numbers, the binary64 numbers of IEEE 754. A number is
  modelled as one of the three special values (\<open>NaN\<close>, \<open>+Infinity\<close>, \<open>-Infinity\<close>) or
  a finite value, carried as the real number it denotes. The quotient and the product of
  two finite numbers are rounded to binary64 by \<open>fl64\<close>. Division by zero, the products
  with infinity and the comparisons with \<open>NaN\<close> follow the language. Zero is the positive
  zero: the sign of a zero is not modelled.
\<close>

datatype jsnum = NaN | PosInf | NegInf | Fin real

text \<open>
  Rounding to binary64. \<open>floorLog2 x\<close> is the binary exponent of a positive \<open>x\<close>, the
  integer part of its logarithm to base two. A number with exponent \<open>e\<close> has a significand
  of 53 bits, so it is a multiple of \<open>2^(e - 52)\<close>; below \<open>2^-1022\<close> the numbers are
  subnormal, multiples of \<open>2^-1074\<close>. The real \<open>x\<close> is rounded to the nearest such multiple,
  a tie to the one with the even significand, and a result of magnitude \<open>2^1024\<close> or more
  is an infinity.
\<close>

function floorLog2 :: "real \<Rightarrow> int" where
  "floorLog2 x =
     (if x \<le> 0 then 0
      else if 2 \<le> x then floorLog2 (x / 2) + 1
      else if x < 1 then floorLog2 (x * 2) - 1
      else 0)"
  by pat_completeness auto
termination
proof (relation "measure (\<lambda>x. nat \<bar>\<lfloor>log 2 x\<rfloor>\<bar>)")
  show "wf (measure (\<lambda>x. nat \<bar>\<lfloor>log 2 x\<rfloor>\<bar>))" by simp
next
  fix x :: real
  assume "\<not> x \<le> 0" and x: "2 \<le> x"
  define n where "n = \<lfloor>log 2 x\<rfloor>"
  from x have "log 2 (x / 2) = log 2 x - 1" by (simp add: log_divide)
  then have 1: "\<lfloor>log 2 (x / 2)\<rfloor> = n - 1" by (simp add: n_def)
  have "1 \<le> log 2 x" using x by (simp add: le_log_iff)
  then have 2: "1 \<le> n" by (simp add: n_def le_floor_iff)
  from 2 have "nat \<bar>n - 1\<bar> < nat \<bar>n\<bar>" by arith
  then show "(x / 2, x) \<in> measure (\<lambda>x. nat \<bar>\<lfloor>log 2 x\<rfloor>\<bar>)"
    unfolding in_measure 1 n_def[symmetric] .
next
  fix x :: real
  assume pos: "\<not> x \<le> 0" and "\<not> 2 \<le> x" and x: "x < 1"
  define n where "n = \<lfloor>log 2 x\<rfloor>"
  from pos have "log 2 (x * 2) = log 2 x + 1" by (simp add: log_mult)
  then have 1: "\<lfloor>log 2 (x * 2)\<rfloor> = n + 1" by (simp add: n_def)
  have "log 2 x < 0" using pos x by simp
  then have 2: "n < 0" by (simp add: n_def floor_less_iff)
  from 2 have "nat \<bar>n + 1\<bar> < nat \<bar>n\<bar>" by arith
  then show "(x * 2, x) \<in> measure (\<lambda>x. nat \<bar>\<lfloor>log 2 x\<rfloor>\<bar>)"
    unfolding in_measure 1 n_def[symmetric] .
qed

declare floorLog2.simps [simp del]

definition pow2 :: "int \<Rightarrow> real" where
  "pow2 e = (if 0 \<le> e then 2 ^ nat e else 1 / 2 ^ nat (- e))"

definition roundHalfEven :: "real \<Rightarrow> int" where
  "roundHalfEven m =
     (let n = \<lfloor>m\<rfloor>; d = m - of_int n
      in if d < 1 / 2 then n else if 1 / 2 < d then n + 1 else if even n then n else n + 1)"

definition fl64 :: "real \<Rightarrow> jsnum" where
  "fl64 x =
     (if x = 0 then Fin 0
      else (let e = max (floorLog2 \<bar>x\<bar>) (- 1022);
                u = pow2 (e - 52);
                r = of_int (roundHalfEven (x / u)) * u
            in if pow2 1024 \<le> \<bar>r\<bar> then (if 0 < r then PosInf else NegInf) else Fin r))"

text \<open>The operator \<open>/\<close>: the quotient of two finite numbers is rounded.\<close>

fun js_div :: "jsnum \<Rightarrow> jsnum \<Rightarrow> jsnum" where
  "js_div NaN _ = NaN"
| "js_div _ NaN = NaN"
| "js_div (Fin x) (Fin y) =
     (if y \<noteq> 0 then fl64 (x / y)
      else if 0 < x then PosInf else if x < 0 then NegInf else NaN)"
| "js_div (Fin x) PosInf = Fin 0"
| "js_div (Fin x) NegInf = Fin 0"
| "js_div PosInf (Fin y) = (if 0 \<le> y then PosInf else NegInf)"
| "js_div NegInf (Fin y) = (if 0 \<le> y then NegInf else PosInf)"
| "js_div PosInf PosInf = NaN"
| "js_div PosInf NegInf = NaN"
| "js_div NegInf PosInf = NaN"
| "js_div NegInf NegInf = NaN"

text \<open>The operator \<open>*\<close>: the product of two finite numbers is rounded.\<close>

fun js_mul :: "jsnum \<Rightarrow> jsnum \<Rightarrow> jsnum" where
  "js_mul NaN _ = NaN"
| "js_mul _ NaN = NaN"
| "js_mul (Fin x) (Fin y) = fl64 (x * y)"
| "js_mul (Fin x) PosInf = (if 0 < x then PosInf else if x < 0 then NegInf else NaN)"
| "js_mul (Fin x) NegInf = (if 0 < x then NegInf else if x < 0 then PosInf else NaN)"
| "js_mul PosInf (Fin y) = (if 0 < y then PosInf else if y < 0 then NegInf else NaN)"
| "js_mul NegInf (Fin y) = (if 0 < y then NegInf else if y < 0 then PosInf else NaN)"
| "js_mul PosInf PosInf = PosInf"
| "js_mul PosInf NegInf = NegInf"
| "js_mul NegInf PosInf = NegInf"
| "js_mul NegInf NegInf = PosInf"

text \<open>Unary minus.\<close>

fun js_neg :: "jsnum \<Rightarrow> jsnum" where
  "js_neg NaN = NaN"
| "js_neg PosInf = NegInf"
| "js_neg NegInf = PosInf"
| "js_neg (Fin x) = Fin (- x)"

text \<open>The operators \<open><\<close> and \<open><=\<close>: false as soon as one side is \<open>NaN\<close>.\<close>

fun js_lt :: "jsnum \<Rightarrow> jsnum \<Rightarrow> bool" where
  "js_lt NaN _ = False"
| "js_lt _ NaN = False"
| "js_lt (Fin x) (Fin y) = (x < y)"
| "js_lt (Fin x) PosInf = True"
| "js_lt (Fin x) NegInf = False"
| "js_lt PosInf _ = False"
| "js_lt NegInf NegInf = False"
| "js_lt NegInf _ = True"

fun js_le :: "jsnum \<Rightarrow> jsnum \<Rightarrow> bool" where
  "js_le NaN _ = False"
| "js_le _ NaN = False"
| "js_le a b = (a = b \<or> js_lt a b)"

text \<open>\<open>Math.max\<close> and \<open>Math.min\<close> of two arguments: \<open>NaN\<close> if either is \<open>NaN\<close>.\<close>

fun Math_max :: "jsnum \<Rightarrow> jsnum \<Rightarrow> jsnum" where
  "Math_max NaN _ = NaN"
| "Math_max _ NaN = NaN"
| "Math_max a b = (if js_lt a b then b else a)"

fun Math_min :: "jsnum \<Rightarrow> jsnum \<Rightarrow> jsnum" where
  "Math_min NaN _ = NaN"
| "Math_min _ NaN = NaN"
| "Math_min a b = (if js_lt b a then b else a)"

text \<open>
  \<open>Math.round\<close> rounds to the nearest integer, a tie towards \<open>+Infinity\<close>;
  \<open>Math.ceil\<close> and \<open>Math.floor\<close> round up and down. All three keep the special
  values, and none of them rounds to binary64: the integer next to a binary64 number is
  a binary64 number.
\<close>

fun Math_round :: "jsnum \<Rightarrow> jsnum" where
  "Math_round (Fin x) = Fin (of_int \<lfloor>x + 1 / 2\<rfloor>)"
| "Math_round a = a"

fun Math_ceil :: "jsnum \<Rightarrow> jsnum" where
  "Math_ceil (Fin x) = Fin (of_int \<lceil>x\<rceil>)"
| "Math_ceil a = a"

fun Math_floor :: "jsnum \<Rightarrow> jsnum" where
  "Math_floor (Fin x) = Fin (of_int \<lfloor>x\<rfloor>)"
| "Math_floor a = a"

text \<open>
  \<open>Math.log10\<close>: \<open>NaN\<close> below zero, \<open>-Infinity\<close> at zero. The language leaves the
  accuracy of the logarithm to the implementation; here it is the logarithm rounded to
  binary64, so that the logarithm of the binary64 number \<open>0.000001\<close>, a little below
  \<open>10^-6\<close>, is \<open>-6\<close>.
\<close>

fun Math_log10 :: "jsnum \<Rightarrow> jsnum" where
  "Math_log10 NaN = NaN"
| "Math_log10 PosInf = PosInf"
| "Math_log10 NegInf = NaN"
| "Math_log10 (Fin x) = (if x < 0 then NaN else if x = 0 then NegInf else fl64 (log 10 x))"

section \<open>The quantity computation of \<open>placeCounterOrder\<close>\<close>

text \<open>
  Each constant that \<open>placeCounterOrder\<close> computes between the balance fetches and the
  order object is a definition of the same name, a function of the constants it reads.
\<close>

definition marginPercentage :: "jsnum \<Rightarrow> jsnum \<Rightarrow> jsnum" where
  "marginPercentage tradeValue tradingEquity = js_div tradeValue tradingEquity"

definition counterTradeValue :: "jsnum \<Rightarrow> jsnum \<Rightarrow> jsnum" where
  "counterTradeValue counterEquity margin = js_mul counterEquity margin"

definition initialCounterQty :: "jsnum \<Rightarrow> jsnum \<Rightarrow> jsnum" where
  "initialCounterQty ctv price = js_div ctv price"

definition steppedCounterQty :: "jsnum \<Rightarrow> jsnum \<Rightarrow> jsnum" where
  "steppedCounterQty initialQty step = js_mul (Math_round (js_div initialQty step)) step"

definition boundedCounterQty :: "jsnum \<Rightarrow> jsnum \<Rightarrow> jsnum \<Rightarrow> jsnum" where
  "boundedCounterQty minQty maxQty stepped = Math_max minQty (Math_min maxQty stepped)"

definition marketAdjustedCounterQty :: "string \<Rightarrow> jsnum \<Rightarrow> jsnum \<Rightarrow> jsnum" where
  "marketAdjustedCounterQty orderType bounded maxMarketQty =
     (if orderType = ''Market'' then Math_min bounded maxMarketQty else bounded)"

definition notionalValue :: "jsnum \<Rightarrow> jsnum \<Rightarrow> jsnum" where
  "notionalValue marketAdjusted price = js_mul marketAdjusted price"

definition minNotionalAdjustedCounterQty :: "jsnum \<Rightarrow> jsnum \<Rightarrow> jsnum \<Rightarrow> jsnum \<Rightarrow> jsnum" where
  "minNotionalAdjustedCounterQty marketAdjusted price minNotional step =
     (if js_lt (notionalValue marketAdjusted price) minNotional
      then js_mul (Math_ceil (js_div (js_div minNotional price) step)) step
      else marketAdjusted)"

definition finalCounterQty :: "jsnum \<Rightarrow> jsnum \<Rightarrow> jsnum \<Rightarrow> jsnum" where
  "finalCounterQty minQty maxQty adjusted = Math_max minQty (Math_min maxQty adjusted)"

text \<open>The numbers read from \<open>symbolInfo.lotSizeFilter\<close>.\<close>

record lotSize =
  maxQty :: jsnum
  minQty :: jsnum
  step :: jsnum
  maxMarketQty :: jsnum
  minNotional :: jsnum

text \<open>
  The chain up to the market-order cap, the repaired quantity and the final quantity, as
  functions of the executed value of the original order, the two equities, the price and
  the order type of the original order, and the lot size filter.
\<close>

definition cappedQty :: "jsnum \<Rightarrow> jsnum \<Rightarrow> jsnum \<Rightarrow> jsnum \<Rightarrow> string \<Rightarrow> lotSize \<Rightarrow> jsnum" where
  "cappedQty tradeValue tradingEquity counterEquity price orderType f =
     (let margin = marginPercentage tradeValue tradingEquity;
          ctv = counterTradeValue counterEquity margin;
          initialQty = initialCounterQty ctv price;
          stepped = steppedCounterQty initialQty (step f);
          bounded = boundedCounterQty (minQty f) (maxQty f) stepped
      in marketAdjustedCounterQty orderType bounded (maxMarketQty f))"

definition repairFires :: "jsnum \<Rightarrow> jsnum \<Rightarrow> jsnum \<Rightarrow> jsnum \<Rightarrow> string \<Rightarrow> lotSize \<Rightarrow> bool" where
  "repairFires tradeValue tradingEquity counterEquity price orderType f =
     js_lt (notionalValue (cappedQty tradeValue tradingEquity counterEquity price orderType f) price)
       (minNotional f)"

definition repairedQty :: "jsnum \<Rightarrow> jsnum \<Rightarrow> jsnum \<Rightarrow> jsnum \<Rightarrow> string \<Rightarrow> lotSize \<Rightarrow> jsnum" where
  "repairedQty tradeValue tradingEquity counterEquity price orderType f =
     minNotionalAdjustedCounterQty
       (cappedQty tradeValue tradingEquity counterEquity price orderType f)
       price (minNotional f) (step f)"

definition sizedQty :: "jsnum \<Rightarrow> jsnum \<Rightarrow> jsnum \<Rightarrow> jsnum \<Rightarrow> string \<Rightarrow> lotSize \<Rightarrow> jsnum" where
  "sizedQty tradeValue tradingEquity counterEquity price orderType f =
     finalCounterQty (minQty f) (maxQty f)
       (repairedQty tradeValue tradingEquity counterEquity price orderType f)"

text \<open>
  The invariant of the instrument constraints:
  \<open>0 < minOrderQty \<le> maxMktOrderQty \<le> maxOrderQty\<close> and \<open>qtyStep > 0\<close>, all finite, with a
  finite minimum notional value.
\<close>

definition constraintsInvariant :: "lotSize \<Rightarrow> bool" where
  "constraintsInvariant f =
     (case (minQty f, maxMarketQty f, maxQty f, step f, minNotional f) of
        (Fin mn, Fin mk, Fin mx, Fin st, Fin nv) \<Rightarrow> 0 < mn \<and> mn \<le> mk \<and> mk \<le> mx \<and> 0 < st
      | _ \<Rightarrow> False)"

text \<open>A quantity is a multiple of the step when it is the step times an integer.\<close>

definition isMultipleOf :: "real \<Rightarrow> real \<Rightarrow> bool" where
  "isMultipleOf q st = (of_int \<lfloor>q / st\<rfloor> * st = q)"



definition isPositive :: "jsnum \<Rightarrow> bool" where
  "isPositive a = (case a of Fin x \<Rightarrow> 0 < x | _ \<Rightarrow> False)"

section \<open>Serialising the quantity: \<open>getDecimalPlaces\<close> and \<open>toFixed\<close>\<close>

definition getDecimalPlaces :: "jsnum \<Rightarrow> jsnum" where
  "getDecimalPlaces st = js_neg (Math_floor (Math_log10 st))"

text \<open>
  The exceptions that the code can meet: the \<open>RangeError\<close> of \<open>toFixed\<close>, the
  \<open>Error\<close> that \<open>getSymbolInfo\<close> constructs, and the rejection of a request by the
  transport.
\<close>

datatype exn = RangeError | JsError string | TransportError

text \<open>
  The conversions between strings and numbers are functions of the language that the
  development leaves open: \<open>ToNumber\<close> (the unary \<open>+\<close> and \<open>Number(s)\<close>),
  \<open>parseFloat\<close>, and the conversion of a number from \<open>10^21\<close> on to a string, which
  \<open>toFixed\<close> falls back to. Every function that converts takes them as a parameter.
\<close>

record builtins =
  ToNumber :: "string \<Rightarrow> jsnum"
  parseFloat :: "string \<Rightarrow> jsnum"
  NumberToString :: "real \<Rightarrow> string"

text \<open>The decimal digits of a natural number, most significant first.\<close>

definition digitChar :: "nat \<Rightarrow> char" where
  "digitChar d = ''0123456789'' ! d"

fun decimalDigits :: "nat \<Rightarrow> string" where
  "decimalDigits n =
     (if n < 10 then [digitChar n] else decimalDigits (n div 10) @ [digitChar (n mod 10)])"

declare decimalDigits.simps [simp del]

definition showInt :: "int \<Rightarrow> string" where
  "showInt i = (if i < 0 then ''-'' @ decimalDigits (nat (- i)) else decimalDigits (nat i))"

text \<open>
  \<open>ToIntegerOrInfinity\<close>, which \<open>toFixed\<close> applies to its argument: \<open>NaN\<close> becomes
  \<open>0\<close>, a finite number is truncated towards zero.
\<close>

fun ToIntegerOrInfinity :: "jsnum \<Rightarrow> jsnum" where
  "ToIntegerOrInfinity NaN = Fin 0"
| "ToIntegerOrInfinity (Fin d) = Fin (if d < 0 then of_int \<lceil>d\<rceil> else of_int \<lfloor>d\<rfloor>)"
| "ToIntegerOrInfinity a = a"

text \<open>
  The digits of \<open>toFixed\<close> for \<open>0 \<le> x < 10^21\<close> and \<open>f\<close> fraction digits, where \<open>x\<close>
  is the value of the binary64 number (of \<open>0.15\<close>, the number next to it, a little
  below): \<open>n\<close> is the integer nearest to \<open>x * 10^f\<close>, the larger one on a tie; its
  digits are padded with zeros on the left to \<open>f + 1\<close> characters and the point is set
  before the last \<open>f\<close>.
\<close>

definition fixedDigits :: "real \<Rightarrow> nat \<Rightarrow> string" where
  "fixedDigits x f =
     (let n = nat \<lfloor>x * 10 ^ f + 1 / 2\<rfloor>;
          m = decimalDigits n
      in if f \<noteq> 0 then
           (let k = length m;
                m' = (if k \<le> f then replicate (f + 1 - k) (CHR ''0'') @ m else m);
                k' = (if k \<le> f then f + 1 else k)
            in take (k' - f) m' @ ''.'' @ drop (k' - f) m')
         else m)"

text \<open>
  \<open>Number.prototype.toFixed\<close>: the range check of the digits comes first, then the
  special values, then the sign and the digits.
\<close>

definition toFixed :: "builtins \<Rightarrow> jsnum \<Rightarrow> jsnum \<Rightarrow> exn + string" where
  "toFixed js x digits =
     (case ToIntegerOrInfinity digits of
        Fin f \<Rightarrow>
          if f < 0 \<or> 100 < f then Inl RangeError
          else (case x of
                  NaN \<Rightarrow> Inr ''NaN''
                | PosInf \<Rightarrow> Inr ''Infinity''
                | NegInf \<Rightarrow> Inr ''-Infinity''
                | Fin r \<Rightarrow>
                    Inr ((if r < 0 then ''-'' else []) @
                         (if 10 ^ 21 \<le> \<bar>r\<bar> then NumberToString js \<bar>r\<bar>
                          else fixedDigits \<bar>r\<bar> (nat \<lfloor>f\<rfloor>))))
      | _ \<Rightarrow> Inl RangeError)"

text \<open>The number of characters after the decimal point of a string, \<open>0\<close> without a point.\<close>

definition fractionDigits :: "string \<Rightarrow> nat" where
  "fractionDigits s = (case dropWhile (\<lambda>c. c \<noteq> CHR ''.'') s of [] \<Rightarrow> 0 | _ # r \<Rightarrow> length r)"

section \<open>Order events and the classifier\<close>

text \<open>
  The fields of an order update that the bot reads. The types of the exchange's library
  are erased when the program runs, so each field is the string (or number) of the
  message.
\<close>

record WSAccountOrder =
  orderId :: string
  orderLinkId :: string
  symbol :: string
  side :: string
  orderType :: string
  orderStatus :: string
  createType :: string
  qty :: string
  price :: string
  cumExecValue :: string
  takeProfit :: string
  stopLoss :: string
  positionIdx :: int
  timeInForce :: string

definition OrderStatusToRespondTo :: "string list" where
  "OrderStatusToRespondTo = [''New'', ''Filled'', ''PartiallyFilled'', ''Created'']"

text \<open>\<open>s.startsWith(p)\<close>: the first \<open>length p\<close> characters of \<open>s\<close> are \<open>p\<close>.\<close>

definition startsWith :: "string \<Rightarrow> string \<Rightarrow> bool" where
  "startsWith s p = (take (length p) s = p)"

definition respondToOrder :: "WSAccountOrder \<Rightarrow> bool" where
  "respondToOrder orderData =
     (orderStatus orderData \<in> set OrderStatusToRespondTo \<and>
      createType orderData = ''CreateByUser'' \<and>
      \<not> startsWith (orderLinkId orderData) ''counter_'')"

section \<open>The counter order\<close>

text \<open>
  The parameters of the order that is submitted. Its fields carry the names of the
  request, so the fields of the event are written with the record's name:
  \<open>WSAccountOrder.side\<close> is the side of the event, \<open>side\<close> the side of the request.
  The price is absent (\<open>undefined\<close>) or a string.
\<close>

record OrderParams =
  category :: string
  symbol :: string
  side :: string
  orderType :: string
  qty :: string
  price :: "string option"
  takeProfit :: string
  stopLoss :: string
  positionIdx :: int
  timeInForce :: string
  reduceOnly :: bool
  closeOnTrigger :: bool
  tpslMode :: string
  orderLinkId :: string

definition counterSide :: "string \<Rightarrow> string" where
  "counterSide originalSide = (if originalSide = ''Buy'' then ''Sell'' else ''Buy'')"

definition counterOrder :: "WSAccountOrder \<Rightarrow> string \<Rightarrow> OrderParams" where
  "counterOrder orderData counterQtyString =
     \<lparr>category = ''linear'',
      symbol = WSAccountOrder.symbol orderData,
      side = counterSide (WSAccountOrder.side orderData),
      orderType = WSAccountOrder.orderType orderData,
      qty = counterQtyString,
      price = (if WSAccountOrder.orderType orderData = ''Limit''
               then Some (WSAccountOrder.price orderData) else None),
      takeProfit = WSAccountOrder.stopLoss orderData,
      stopLoss = WSAccountOrder.takeProfit orderData,
      positionIdx = WSAccountOrder.positionIdx orderData,
      timeInForce = WSAccountOrder.timeInForce orderData,
      reduceOnly = False,
      closeOnTrigger = False,
      tpslMode = ''Partial'',
      orderLinkId = ''counter_'' @ orderId orderData\<rparr>"

section \<open>The exchange, the notification channel and the log\<close>

text \<open>
  A request to the exchange is awaited: it resolves with a response or it is rejected
  with an exception. A response carries the result code, the message and the result; for
  the wallet and the instrument queries \<open>result\<close> is the list \<open>response.result.list\<close>.
\<close>

datatype 'a promise = Resolved 'a | Rejected exn

record 'a APIResponse =
  retCode :: int
  retMsg :: string
  result :: 'a

text \<open>One coin of a wallet, as the exchange sends it, and the balance the bot makes of it.\<close>

record WalletCoin =
  coin :: string
  walletBalance :: string
  availableToWithdraw :: string
  equity :: string

record Balance =
  walletBalance :: jsnum
  availableToWithdraw :: jsnum
  equity :: jsnum

record LotSizeFilter =
  maxOrderQty :: string
  minOrderQty :: string
  qtyStep :: string
  maxMktOrderQty :: string
  minNotionalValue :: string

record InstrumentInfo =
  lotSizeFilter :: LotSizeFilter

text \<open>
  What the outside answers while one order is processed: the wallet of the trading
  account and of the counter account (each element of the list is the \<open>coin\<close> array of
  one wallet), the instruments of a symbol, the answer to a submitted order, whether a
  message to the Telegram channel is delivered (otherwise sending throws), and whether
  the Telegram bot is configured.
\<close>

record env =
  tradingWallet :: "WalletCoin list list APIResponse promise"
  counterWallet :: "WalletCoin list list APIResponse promise"
  instrumentsInfo :: "string \<Rightarrow> InstrumentInfo list APIResponse promise"
  submitOrder :: "OrderParams \<Rightarrow> unit APIResponse promise"
  sendMessage :: "string \<Rightarrow> bool"
  TELEGRAM_ENABLED :: bool

text \<open>
  What the program does to the outside, in order: a line of the logger with its level
  and message (the objects logged with it are left out), a line of the console, a
  delivered Telegram message, an order handed to the exchange, and the end of the
  process with an exit code.
\<close>

datatype level = Info | Warn | Error

datatype effect =
  Log level string
| ConsoleLog "Balance option"
| Telegram string
| SubmitOrder OrderParams
| ProcessExit int

definition ASSUMING_COIN :: string where
  "ASSUMING_COIN = ''USDT''"

definition sendTelegramMessage :: "env \<Rightarrow> string \<Rightarrow> effect list" where
  "sendTelegramMessage w message =
     (if TELEGRAM_ENABLED w then
        (if sendMessage w message then [Telegram message]
         else [Log Error ''Error sending Telegram message:''])
      else [])"

text \<open>
  \<open>getBalanceOfCoin\<close>: every failure inside the \<open>try\<close> block, the rejected request and
  the read of \<open>list[0].coin\<close> on an empty list among them, is caught and logged, and the
  function returns \<open>null\<close>.
\<close>

definition getBalanceOfCoin ::
  "builtins \<Rightarrow> WalletCoin list list APIResponse promise \<Rightarrow> string \<Rightarrow> string
    \<Rightarrow> effect list \<times> Balance option" where
  "getBalanceOfCoin js client c account =
     (case client of
        Rejected ex \<Rightarrow>
          ([Log Error (''Exception when fetching '' @ account @ '' account balance:'')], None)
      | Resolved response \<Rightarrow>
          if retCode response = 0 then
            (case result response of
               [] \<Rightarrow>
                 ([Log Error (''Exception when fetching '' @ account @ '' account balance:'')],
                  None)
             | balance # _ \<Rightarrow>
                 (case find (\<lambda>balanceCoin. coin balanceCoin = c) balance of
                    Some foundCoin \<Rightarrow>
                      ([], Some \<lparr>walletBalance = ToNumber js (WalletCoin.walletBalance foundCoin),
                                 availableToWithdraw =
                                   ToNumber js (WalletCoin.availableToWithdraw foundCoin),
                                 equity = ToNumber js (WalletCoin.equity foundCoin)\<rparr>)
                  | None \<Rightarrow>
                      ([Log Error (''Could not find '' @ c @ '' in '' @ account
                                   @ '' account balance'')], None)))
          else
            ([Log Error (''Response code '' @ showInt (retCode response) @ '' when fetching ''
                         @ account @ '' account balance'')], None))"

text \<open>\<open>getSymbolInfo\<close> logs what it catches and throws it again.\<close>

definition getSymbolInfo :: "env \<Rightarrow> string \<Rightarrow> effect list \<times> (exn + InstrumentInfo)" where
  "getSymbolInfo w symbolName =
     (case instrumentsInfo w symbolName of
        Rejected ex \<Rightarrow> ([Log Error (''Error fetching symbol info for '' @ symbolName @ '':'')], Inl ex)
      | Resolved response \<Rightarrow>
          (case (retCode response = 0, result response) of
             (True, info # _) \<Rightarrow> ([], Inr info)
           | _ \<Rightarrow>
               ([Log Error (''Error fetching symbol info for '' @ symbolName @ '':'')],
                Inl (JsError (''Failed to get symbol info for '' @ symbolName)))))"

definition lotSizeNumbers :: "builtins \<Rightarrow> LotSizeFilter \<Rightarrow> lotSize" where
  "lotSizeNumbers js filt =
     \<lparr>maxQty = ToNumber js (maxOrderQty filt),
      minQty = ToNumber js (minOrderQty filt),
      step = ToNumber js (qtyStep filt),
      maxMarketQty = ToNumber js (maxMktOrderQty filt),
      minNotional = ToNumber js (minNotionalValue filt)\<rparr>"

text \<open>\<open>s || d\<close> for a string, and for a string that may be \<open>undefined\<close>.\<close>

definition orDefault :: "string \<Rightarrow> string \<Rightarrow> string" where
  "orDefault s d = (if s = [] then d else s)"

definition orDefaultOpt :: "string option \<Rightarrow> string \<Rightarrow> string" where
  "orDefaultOpt s d = (case s of None \<Rightarrow> d | Some t \<Rightarrow> orDefault t d)"

definition newline :: string where
  "newline = [CHR 0x0A]"

definition counterOrderMessage :: "OrderParams \<Rightarrow> string" where
  "counterOrderMessage co =
     newline @ side co @ '' '' @ symbol co @ newline
     @ ''Size: '' @ qty co @ newline
     @ ''Entry: '' @ orDefaultOpt (price co) ''Market'' @ newline
     @ ''TP: '' @ orDefault (takeProfit co) ''None'' @ newline
     @ ''SL: '' @ orDefault (stopLoss co) ''None'' @ newline"

definition originalOrderMessage :: "WSAccountOrder \<Rightarrow> string" where
  "originalOrderMessage orderData =
     newline @ ''      Original Order:'' @ newline
     @ ''      '' @ WSAccountOrder.side orderData @ '' '' @ WSAccountOrder.symbol orderData
     @ newline
     @ ''      Size: '' @ WSAccountOrder.qty orderData @ newline
     @ ''      Entry: '' @ orDefault (WSAccountOrder.price orderData) ''Market'' @ newline
     @ ''      TP: '' @ orDefault (WSAccountOrder.takeProfit orderData) ''None'' @ newline
     @ ''      SL: '' @ orDefault (WSAccountOrder.stopLoss orderData) ''None'' @ newline
     @ ''      ''"

text \<open>
  The \<open>try\<close> block at the end of \<open>placeCounterOrder\<close>: the order is handed to the
  exchange; the result code \<open>110007\<close> is logged as a warning, any other code is logged
  and notified, and a rejected request is caught, logged as an error and notified.
\<close>

definition submitCounterOrder :: "env \<Rightarrow> OrderParams \<Rightarrow> effect list" where
  "submitCounterOrder w co =
     SubmitOrder co #
     (case submitOrder w co of
        Resolved response \<Rightarrow>
          if retCode response = 110007
          then [Log Warn ''Insufficent balance in countertrade account for order'']
          else [Log Info ''Countertrade result code'',
                Log Info ''Countertrade result message'',
                Log Info ''Counter order placed:'']
               @ sendTelegramMessage w (''Order placed: '' @ symbol co @ '' '' @ side co)
      | Rejected ex \<Rightarrow>
          Log Error ''Error placing counter order:''
          # sendTelegramMessage w (''Error placing order: '' @ symbol co @ '' '' @ side co))"

text \<open>
  \<open>placeCounterOrder\<close>: the effects in order, and how the call ends: it returns
  (\<open>Inr ()\<close>) or an exception leaves it (\<open>Inl\<close>). The exception of \<open>getSymbolInfo\<close> and
  the \<open>RangeError\<close> of \<open>toFixed\<close> are not caught.
\<close>

definition placeCounterOrder ::
  "builtins \<Rightarrow> env \<Rightarrow> WSAccountOrder \<Rightarrow> effect list \<times> (exn + unit)" where
  "placeCounterOrder js w orderData =
     (case getBalanceOfCoin js (tradingWallet w) ASSUMING_COIN ''trading'' of
        (t1, None) \<Rightarrow> (t1 @ [Log Error ''Error fetching trading account balance''], Inr ())
      | (t1, Some tradingAccountBalance) \<Rightarrow>
          (let tradeValue = parseFloat js (cumExecValue orderData) in
           case getBalanceOfCoin js (counterWallet w) ASSUMING_COIN ''counter'' of
             (t2, None) \<Rightarrow>
               (t1 @ t2 @ [Log Error ''Error fetching counter-trading account balance''], Inr ())
           | (t2, Some countertradeAccountBalance) \<Rightarrow>
               (case getSymbolInfo w (WSAccountOrder.symbol orderData) of
                  (t3, Inl ex) \<Rightarrow> (t1 @ t2 @ t3, Inl ex)
                | (t3, Inr symbolInfo) \<Rightarrow>
                    (let f = lotSizeNumbers js (lotSizeFilter symbolInfo);
                         finalQty =
                           sizedQty tradeValue (equity tradingAccountBalance)
                             (equity countertradeAccountBalance)
                             (ToNumber js (WSAccountOrder.price orderData))
                             (WSAccountOrder.orderType orderData) f
                     in case toFixed js finalQty (getDecimalPlaces (step f)) of
                          Inl ex \<Rightarrow> (t1 @ t2 @ t3, Inl ex)
                        | Inr counterQtyString \<Rightarrow>
                            (let co = counterOrder orderData counterQtyString
                             in (t1 @ t2 @ t3 @ [Log Info ''Placing counter order:'']
                                 @ sendTelegramMessage w (counterOrderMessage co)
                                 @ submitCounterOrder w co, Inr ()))))))"

text \<open>
  The handler of \<open>update\<close>: the orders of a batch in order, each awaited before the
  next; an exception that leaves \<open>placeCounterOrder\<close> leaves the loop and the handler.
  The outside is a function of the order that is being processed.
\<close>

fun onUpdate ::
  "builtins \<Rightarrow> (WSAccountOrder \<Rightarrow> env) \<Rightarrow> WSAccountOrder list \<Rightarrow> effect list \<times> (exn + unit)" where
  "onUpdate js world [] = ([], Inr ())"
| "onUpdate js world (orderData # rest) =
     (if respondToOrder orderData then
        (let t0 = Log Info ''New original order detected:''
                  # sendTelegramMessage (world orderData) (originalOrderMessage orderData)
         in case placeCounterOrder js (world orderData) orderData of
              (t1, Inl ex) \<Rightarrow> (t0 @ t1, Inl ex)
            | (t1, Inr _) \<Rightarrow>
                (case onUpdate js world rest of (t2, r) \<Rightarrow> (t0 @ t1 @ t2, r)))
      else onUpdate js world rest)"

text \<open>
  \<open>checkFetchBalances\<close>, called once when the program starts: it prints the two
  balances and ends the process with code \<open>0\<close>.
\<close>

definition checkFetchBalances :: "builtins \<Rightarrow> env \<Rightarrow> effect list" where
  "checkFetchBalances js w =
     (case getBalanceOfCoin js (tradingWallet w) ASSUMING_COIN ''trading'' of
        (t1, tradingBalance) \<Rightarrow>
          (case getBalanceOfCoin js (counterWallet w) ASSUMING_COIN ''counter'' of
             (t2, counterTradingBalance) \<Rightarrow>
               t1 @ [ConsoleLog tradingBalance] @ t2 @ [ConsoleLog counterTradingBalance]
               @ [ProcessExit 0]))"

section \<open>Concrete messages\<close>

text \<open>
  A conversion for plain decimal literals (digits, with a fraction after a point), the
  form in which the exchange sends its numbers, to run the definitions on concrete
  messages: the value of the literal, rounded to binary64. On these strings it agrees
  with \<open>ToNumber\<close> and \<open>parseFloat\<close>; the empty
  string converts to \<open>0\<close> with \<open>ToNumber\<close> and to \<open>NaN\<close> with \<open>parseFloat\<close>. No
  concrete message has a quantity from \<open>10^21\<close> on, so \<open>NumberToString\<close> is left empty.
\<close>

definition digitValue :: "char \<Rightarrow> nat option" where
  "digitValue c =
     (if c \<in> set ''0123456789''
      then Some (length (takeWhile (\<lambda>d. d \<noteq> c) ''0123456789'')) else None)"

fun digitsValue :: "string \<Rightarrow> nat \<Rightarrow> nat option" where
  "digitsValue [] acc = Some acc"
| "digitsValue (c # cs) acc =
     (case digitValue c of None \<Rightarrow> None | Some d \<Rightarrow> digitsValue cs (10 * acc + d))"

definition decimalLiteral :: "string \<Rightarrow> jsnum" where
  "decimalLiteral s =
     (let ip = takeWhile (\<lambda>c. c \<noteq> CHR ''.'') s;
          fp = drop 1 (dropWhile (\<lambda>c. c \<noteq> CHR ''.'') s)
      in if ip = [] then NaN
         else (case (digitsValue ip 0, digitsValue fp 0) of
                 (Some a, Some b) \<Rightarrow> fl64 (real a + real b / 10 ^ length fp)
               | _ \<Rightarrow> NaN))"

definition decimalBuiltins :: builtins where
  "decimalBuiltins =
     \<lparr>ToNumber = (\<lambda>s. if s = [] then Fin 0 else decimalLiteral s),
      parseFloat = decimalLiteral,
      NumberToString = (\<lambda>r. [])\<rparr>"

text \<open>
  A wallet with one coin of the given equity, the instruments of a symbol with the given
  result code and quantity step, an exchange in which every request succeeds, and a
  filled limit order of the trading account.
\<close>

definition sampleWallet :: "string \<Rightarrow> WalletCoin list list APIResponse promise" where
  "sampleWallet e =
     Resolved \<lparr>retCode = 0, retMsg = ''OK'',
       result = [[\<lparr>coin = ''USDT'', walletBalance = e, availableToWithdraw = e,
                   equity = e\<rparr>]]\<rparr>"

definition sampleInstruments :: "int \<Rightarrow> string \<Rightarrow> InstrumentInfo list APIResponse promise" where
  "sampleInstruments code st =
     Resolved \<lparr>retCode = code, retMsg = ''OK'',
       result = [\<lparr>lotSizeFilter =
                   \<lparr>maxOrderQty = ''100'', minOrderQty = ''1'', qtyStep = st,
                    maxMktOrderQty = ''50'', minNotionalValue = ''5''\<rparr>\<rparr>]\<rparr>"

definition sampleEnv :: env where
  "sampleEnv =
     \<lparr>tradingWallet = sampleWallet ''10000'',
      counterWallet = sampleWallet ''1000'',
      instrumentsInfo = (\<lambda>s. sampleInstruments 0 ''1''),
      submitOrder = (\<lambda>co. Resolved \<lparr>retCode = 0, retMsg = ''OK'', result = ()\<rparr>),
      sendMessage = (\<lambda>m. True),
      TELEGRAM_ENABLED = False\<rparr>"

definition sampleOrder :: WSAccountOrder where
  "sampleOrder =
     \<lparr>orderId = ''abc'', orderLinkId = [], WSAccountOrder.symbol = ''BTCUSDT'',
      WSAccountOrder.side = ''Buy'', WSAccountOrder.orderType = ''Limit'',
      orderStatus = ''Filled'', createType = ''CreateByUser'', WSAccountOrder.qty = ''5'',
      WSAccountOrder.price = ''100'', cumExecValue = ''500'',
      WSAccountOrder.takeProfit = ''120'', WSAccountOrder.stopLoss = ''90'',
      WSAccountOrder.positionIdx = 0, WSAccountOrder.timeInForce = ''GTC''\<rparr>"

text \<open>
  The exchange of \<open>sampleEnv\<close> with another answer to a submitted order, and with
  another answer to the instrument query; the outside that is the same for every order
  of a batch; and a second order of the trading account.
\<close>

definition submitAnswers :: "unit APIResponse promise \<Rightarrow> env" where
  "submitAnswers a = sampleEnv\<lparr>submitOrder := (\<lambda>co. a)\<rparr>"

definition instrumentsAnswer :: "InstrumentInfo list APIResponse promise \<Rightarrow> env" where
  "instrumentsAnswer a = sampleEnv\<lparr>instrumentsInfo := (\<lambda>s. a)\<rparr>"

definition everyOrder :: "env \<Rightarrow> WSAccountOrder \<Rightarrow> env" where
  "everyOrder w orderData = w"

definition secondOrder :: WSAccountOrder where
  "secondOrder = sampleOrder\<lparr>orderId := ''def'', WSAccountOrder.symbol := ''ETHUSDT''\<rparr>"

section \<open>Lemmas on numbers\<close>

lemmas fl64_defs = fl64_def floorLog2.simps pow2_def roundHalfEven_def Let_def

lemma pow2_pos: "0 < pow2 e"
  by (simp add: pow2_def)

lemma roundHalfEven_nonneg: "0 \<le> m \<Longrightarrow> 0 \<le> roundHalfEven m"
  by (simp add: roundHalfEven_def Let_def)

lemma fl64_not_NaN [simp]: "fl64 x \<noteq> NaN"
  by (simp add: fl64_def Let_def)

text \<open>Rounding keeps the sign: a quotient or product that is not negative stays so.\<close>

lemma fl64_nonneg:
  assumes "0 \<le> x"
  shows "fl64 x = PosInf \<or> (\<exists>r. fl64 x = Fin r \<and> 0 \<le> r)"
proof (cases "x = 0")
  case True
  then show ?thesis by (simp add: fl64_def)
next
  case False
  define u where "u = pow2 (max (floorLog2 \<bar>x\<bar>) (- 1022) - 52)"
  define r where "r = of_int (roundHalfEven (x / u)) * u"
  have u: "0 < u" unfolding u_def by (rule pow2_pos)
  then have "0 \<le> x / u" using assms by simp
  then have "0 \<le> roundHalfEven (x / u)" by (rule roundHalfEven_nonneg)
  then have r: "0 \<le> r" unfolding r_def using u by simp
  have "fl64 x = (if pow2 1024 \<le> \<bar>r\<bar> then (if 0 < r then PosInf else NegInf) else Fin r)"
    using False by (simp add: fl64_def Let_def u_def r_def)
  moreover have "pow2 1024 \<le> \<bar>r\<bar> \<Longrightarrow> 0 < r" using r pow2_pos[of 1024] by linarith
  ultimately show ?thesis using r by auto
qed

lemma Math_min_Fin: "Math_min (Fin a) (Fin b) = Fin (min a b)"
  by (simp add: min_def)

lemma Math_max_Fin: "Math_max (Fin a) (Fin b) = Fin (max a b)"
  by (simp add: max_def)

lemma js_le_Fin: "js_le (Fin a) (Fin b) = (a \<le> b)"
  by auto

lemma NaN_right [simp]:
  "js_mul a NaN = NaN" "js_div a NaN = NaN" "Math_min a NaN = NaN" "Math_max a NaN = NaN"
  "\<not> js_lt a NaN" "\<not> js_le a NaN"
  by (cases a; simp)+

lemma js_div_pos_not_NaN: "a \<noteq> NaN \<Longrightarrow> 0 < p \<Longrightarrow> js_div a (Fin p) \<noteq> NaN"
  by (cases a) simp_all




lemma Math_ceil_cases:
  assumes "a \<noteq> NaN"
  shows "Math_ceil a = PosInf \<or> Math_ceil a = NegInf
    \<or> (\<exists>k::int. Math_ceil a = Fin (of_int k))"
  using assms by (cases a) auto

lemma Math_ceil_ge: "a \<noteq> NaN \<Longrightarrow> js_le a (Math_ceil a)"
proof (cases a)
  case (Fin x)
  have "x \<le> of_int \<lceil>x\<rceil>" by (rule le_of_int_ceiling)
  then show ?thesis unfolding Fin Math_ceil.simps js_le_Fin .
qed simp_all




lemma isPositiveE: "isPositive a \<Longrightarrow> (\<And>x. a = Fin x \<Longrightarrow> 0 < x \<Longrightarrow> P) \<Longrightarrow> P"
  by (cases a) (simp_all add: isPositive_def)

lemma constraintsInvariantE:
  assumes "constraintsInvariant f"
  obtains mn mk mx st nv where "minQty f = Fin mn" "maxMarketQty f = Fin mk"
    "maxQty f = Fin mx" "step f = Fin st" "minNotional f = Fin nv"
    "0 < mn" "mn \<le> mk" "mk \<le> mx" "0 < st"
  using assms unfolding constraintsInvariant_def
  by (auto split: jsnum.splits)

lemma isMultipleOf_iff: "st \<noteq> 0 \<Longrightarrow> isMultipleOf q st \<longleftrightarrow> (\<exists>k::int. q = of_int k * st)"
  unfolding isMultipleOf_def
proof
  assume "of_int \<lfloor>q / st\<rfloor> * st = q"
  then show "\<exists>k::int. q = of_int k * st" by metis
next
  assume nz: "st \<noteq> 0" and "\<exists>k::int. q = of_int k * st"
  then obtain k :: int where "q = of_int k * st" by blast
  with nz show "of_int \<lfloor>q / st\<rfloor> * st = q" by simp
qed

text \<open>
  The binary exponent is the integer part of the logarithm to base two, and rounding to
  the nearest integer keeps a number between the integers it lies between.
\<close>

lemma floorLog2_eq: "0 < x \<Longrightarrow> floorLog2 x = \<lfloor>log 2 x\<rfloor>"
proof (induction x rule: floorLog2.induct)
  case (1 x)
  show ?case
  proof (cases "2 \<le> x")
    case True
    with 1 have "floorLog2 (x / 2) = \<lfloor>log 2 (x / 2)\<rfloor>" by simp
    moreover have "log 2 (x / 2) = log 2 x - 1" using 1(3) by (simp add: log_divide)
    ultimately show ?thesis using True 1(3) by (subst floorLog2.simps) simp
  next
    case False
    show ?thesis
    proof (cases "x < 1")
      case True
      with 1 False have "floorLog2 (x * 2) = \<lfloor>log 2 (x * 2)\<rfloor>" by simp
      moreover have "log 2 (x * 2) = log 2 x + 1" using 1(3) by (simp add: log_mult)
      ultimately show ?thesis using True False 1(3) by (subst floorLog2.simps) simp
    next
      case False
      with \<open>\<not> 2 \<le> x\<close> have "0 \<le> log 2 x" "log 2 x < 1"
        using 1(3) by (simp_all add: log_less_iff)
      then have "\<lfloor>log 2 x\<rfloor> = 0" by (simp add: floor_eq_iff)
      then show ?thesis using False \<open>\<not> 2 \<le> x\<close> 1(3) by (subst floorLog2.simps) simp
    qed
  qed
qed

lemma floorLog2_inverse_power: "floorLog2 \<bar>1 / 2 ^ n\<bar> = - int n"
proof -
  have "log 2 (1 / 2 ^ n) = of_int (- int n)" by (simp add: log_divide log_nat_power)
  then have "\<lfloor>log 2 (1 / 2 ^ n)\<rfloor> = - int n" by (simp only: floor_of_int)
  moreover have "(0::real) < 1 / 2 ^ n" by simp
  ultimately show ?thesis by (simp add: floorLog2_eq del: abs_divide)
qed

text \<open>Underflow: a quarter of the least positive binary64 number \<open>2^-1074\<close> rounds to \<open>0\<close>.\<close>

lemma fl64_underflow: "fl64 (1 / 2 ^ 1076) = Fin 0"
proof -
  have q: "(1 / 2 ^ 1076 :: real) / pow2 (max (- int 1076) (- 1022) - 52) = 1 / 4"
    by (simp add: pow2_def)
  have r: "roundHalfEven (1 / 4) = 0" by (simp add: roundHalfEven_def)
  have n: "(1 / 2 ^ 1076 :: real) \<noteq> 0" by simp
  have p: "\<not> pow2 1024 \<le> 0" using pow2_pos[of 1024] by simp
  show ?thesis
    unfolding fl64_def Let_def floorLog2_inverse_power q r using n p
    by (simp del: power_numeral)
qed

lemma roundHalfEven_between:
  assumes "of_int a \<le> m" "m \<le> of_int b"
  shows "a \<le> roundHalfEven m" "roundHalfEven m \<le> b"
proof -
  have f: "a \<le> \<lfloor>m\<rfloor>" using assms(1) by (simp add: le_floor_iff)
  then show "a \<le> roundHalfEven m" by (auto simp: roundHalfEven_def Let_def)
  show "roundHalfEven m \<le> b"
  proof (cases "m = of_int \<lfloor>m\<rfloor>")
    case True
    then have "m - of_int \<lfloor>m\<rfloor> = 0" by simp
    then have "roundHalfEven m = \<lfloor>m\<rfloor>" by (simp add: roundHalfEven_def Let_def)
    moreover have "\<lfloor>m\<rfloor> \<le> b" using assms(2) by (simp add: floor_le_iff)
    ultimately show ?thesis by simp
  next
    case False
    have "of_int \<lfloor>m\<rfloor> < m"
      by (rule order.not_eq_order_implies_strict[OF False[symmetric] of_int_floor_le])
    with assms(2) have "(of_int \<lfloor>m\<rfloor> :: real) < of_int b" by linarith
    then have "\<lfloor>m\<rfloor> + 1 \<le> b" by simp
    moreover have "roundHalfEven m \<le> \<lfloor>m\<rfloor> + 1" by (auto simp: roundHalfEven_def Let_def)
    ultimately show ?thesis by linarith
  qed
qed

text \<open>
  A number between an integer \<open>k\<close> and \<open>k + 1/2\<close> is rounded to a binary64 number between
  the two, both being binary64 numbers.
\<close>

lemma fl64_between:
  assumes y: "of_int k \<le> y" "y \<le> of_int k + 1 / 2" and k: "\<bar>k\<bar> \<le> 1000"
  shows "\<exists>r. fl64 y = Fin r \<and> of_int k \<le> r \<and> r \<le> of_int k + 1 / 2"
proof (cases "y = 0")
  case True
  with y show ?thesis by (auto simp: fl64_def)
next
  case False
  define e where "e = max (floorLog2 \<bar>y\<bar>) (- 1022)"
  have ay: "\<bar>y\<bar> \<le> 1001" using y k by (auto simp: abs_le_iff)
  have "log 2 \<bar>y\<bar> < 52"
  proof -
    have "\<bar>y\<bar> < 2 powr 52" using ay by simp
    then show ?thesis using False by (simp add: log_less_iff)
  qed
  then have "\<lfloor>log 2 \<bar>y\<bar>\<rfloor> \<le> 51" by (simp add: floor_le_iff)
  then have e51: "e \<le> 51" using False by (simp add: e_def floorLog2_eq)
  define n where "n = nat (51 - e)"
  have u: "pow2 (e - 52) = 1 / (2 * 2 ^ n)"
  proof -
    have "nat (52 - e) = Suc n" using e51 by (simp add: n_def)
    then show ?thesis using e51 by (simp add: pow2_def)
  qed
  define N :: int where "N = 2 ^ n"
  have N: "0 < N" by (simp add: N_def)
  have m: "y / (1 / (2 * 2 ^ n)) = y * of_int (2 * N)" by (simp add: N_def)
  define R where "R = roundHalfEven (y * of_int (2 * N))"
  have lo: "of_int (k * (2 * N)) \<le> y * of_int (2 * N)"
    using y(1) N by (simp add: mult_right_mono)
  have hi: "y * of_int (2 * N) \<le> of_int ((2 * k + 1) * N)"
  proof -
    have "y * of_int (2 * N) \<le> (of_int k + 1 / 2) * of_int (2 * N)"
      using y(2) N by (intro mult_right_mono) simp_all
    also have "\<dots> = of_int ((2 * k + 1) * N)" by (simp add: algebra_simps)
    finally show ?thesis .
  qed
  from roundHalfEven_between[OF lo hi] have R: "k * (2 * N) \<le> R" "R \<le> (2 * k + 1) * N"
    by (simp_all add: R_def)
  define r where "r = of_int R * (1 / (2 * 2 ^ n) :: real)"
  have r: "r = of_int R / of_int (2 * N)" by (simp add: r_def N_def)
  have N2: "(0::real) < of_int (2 * N)" using N by simp
  have rlo: "of_int k \<le> r"
  proof -
    from R(1) have "(of_int (k * (2 * N)) :: real) \<le> of_int R" by (simp only: of_int_le_iff)
    then have "of_int k * of_int (2 * N) \<le> (of_int R :: real)" by simp
    then show ?thesis unfolding r using N2 by (simp only: pos_le_divide_eq)
  qed
  have rhi: "r \<le> of_int k + 1 / 2"
  proof -
    from R(2) have "(of_int R :: real) \<le> of_int ((2 * k + 1) * N)" by (simp only: of_int_le_iff)
    also have "\<dots> = (of_int k + 1 / 2) * of_int (2 * N)" by (simp add: algebra_simps)
    finally show ?thesis unfolding r using N2 by (simp only: pos_divide_le_eq)
  qed
  have "\<bar>r\<bar> \<le> 1001" using rlo rhi k by (auto simp: abs_le_iff)
  also have "\<dots> < pow2 1024" by (simp add: pow2_def)
  finally have small: "\<not> pow2 1024 \<le> \<bar>r\<bar>" by simp
  have "fl64 y = Fin r"
    using False small unfolding fl64_def Let_def e_def[symmetric] u m R_def[symmetric] r_def
    by simp
  with rlo rhi show ?thesis by blast
qed

text \<open>
  The number of places of a step between a power of ten and three times that power:
  the logarithm lies between the exponent \<open>k\<close> and \<open>k + 1/2\<close>, and so does the rounded
  logarithm.
\<close>

lemma log10_three: "log 10 3 \<le> 1 / 2"
proof -
  have "3 \<le> sqrt 10" by (rule real_le_rsqrt) simp
  then have "3 \<le> (10::real) powr (1 / 2)" by (simp add: powr_half_sqrt)
  moreover have "log 10 3 \<le> 1 / 2 \<longleftrightarrow> 3 \<le> (10::real) powr (1 / 2)"
    by (rule log_le_iff) simp_all
  ultimately show ?thesis by (simp only:)
qed

lemma getDecimalPlaces_near_power:
  assumes s: "10 powr of_int k \<le> s" "s \<le> 3 * 10 powr of_int k" and k: "\<bar>k\<bar> \<le> 1000"
  shows "getDecimalPlaces (Fin s) = Fin (of_int (- k))"
proof -
  have p: "(0::real) < 10 powr of_int k" by simp
  with s(1) have pos: "0 < s" by linarith
  have lo: "of_int k \<le> log 10 s" using s(1) pos by (simp add: le_log_iff)
  have "log 10 s \<le> log 10 (3 * 10 powr of_int k)" using s(2) pos by simp
  also have "\<dots> = log 10 3 + of_int k" by (simp add: log_mult)
  also have "\<dots> \<le> of_int k + 1 / 2" using log10_three by simp
  finally have hi: "log 10 s \<le> of_int k + 1 / 2" .
  from fl64_between[OF lo hi k] obtain r where r: "fl64 (log 10 s) = Fin r" "of_int k \<le> r"
    "r \<le> of_int k + 1 / 2" by blast
  have "\<lfloor>r\<rfloor> = k" using r(2,3) by (simp add: floor_eq_iff)
  then show ?thesis using pos by (simp add: getDecimalPlaces_def r(1))
qed

lemma getDecimalPlaces_examples:
  "getDecimalPlaces (Fin 1) = Fin 0" "getDecimalPlaces (Fin 10) = Fin (- 1)"
  "getDecimalPlaces (Fin (1152921504606847 / 1152921504606846976)) = Fin 3"
proof -
  show "getDecimalPlaces (Fin 1) = Fin 0" by (simp add: getDecimalPlaces_def fl64_def)
  show "getDecimalPlaces (Fin 10) = Fin (- 1)" by (simp add: getDecimalPlaces_def fl64_defs)
  have "getDecimalPlaces (Fin (1152921504606847 / 1152921504606846976))
      = Fin (of_int (- (- 3)))"
    by (rule getDecimalPlaces_near_power) (simp_all add: powr_minus_divide)
  then show "getDecimalPlaces (Fin (1152921504606847 / 1152921504606846976)) = Fin 3"
    by simp
qed

section \<open>The quantity: bounds, step and minimum notional\<close>

lemmas sizer_defs = sizedQty_def repairedQty_def repairFires_def cappedQty_def
  finalCounterQty_def minNotionalAdjustedCounterQty_def notionalValue_def
  marketAdjustedCounterQty_def boundedCounterQty_def steppedCounterQty_def
  initialCounterQty_def counterTradeValue_def marginPercentage_def


text \<open>
  The stepped quantity is an infinity or the rounded product of an integer and the step,
  and so is the repaired quantity.
\<close>

lemma NaN_not_fl64 [simp]: "NaN \<noteq> fl64 x"
  using fl64_not_NaN[of x] by (rule not_sym)


lemma ceil_step_shape:
  assumes "0 < st" "y \<noteq> NaN"
  shows "js_mul (Math_ceil y) (Fin st) = PosInf \<or> js_mul (Math_ceil y) (Fin st) = NegInf
    \<or> (\<exists>k::int. js_mul (Math_ceil y) (Fin st) = js_mul (Fin (of_int k)) (Fin st))"
  using Math_ceil_cases[OF assms(2)] assms(1) by auto

lemma shape_not_NaN:
  assumes "x = PosInf \<or> x = NegInf \<or> (\<exists>k::int. x = js_mul (Fin (of_int k)) (Fin st))"
  shows "x \<noteq> NaN"
proof
  assume "x = NaN"
  with assms obtain k :: int where "NaN = js_mul (Fin (of_int k)) (Fin st)" by auto
  then have "fl64 (of_int k * st) = NaN" by simp
  then show False by simp
qed


text \<open>The binary64 values of the decimal literals of the examples.\<close>

lemmas literal_defs = decimalLiteral_def digitValue_def

lemma literal_values:
  "decimalLiteral ''0.1'' = Fin (3602879701896397 / 36028797018963968)"
  "decimalLiteral ''0.12'' = Fin (1080863910568919 / 9007199254740992)"
  "decimalLiteral ''0.0001'' = Fin (7378697629483821 / 73786976294838206464)"
  "decimalLiteral ''15.3'' = Fin (4306567143673037 / 281474976710656)"
  "decimalLiteral ''1.4'' = Fin (3152519739159347 / 2251799813685248)"
  "decimalLiteral ''0.005'' = Fin (5764607523034235 / 1152921504606846976)"
  "decimalLiteral ''0.4'' = Fin (3602879701896397 / 9007199254740992)"
  by (simp_all add: literal_defs fl64_defs)



text \<open>
  Claim C5, as the code has it. When the notional value of the quantity, computed in
  binary64, is below the minimum, the quantity becomes
  \<open>ceil(minNotional / price / step) * step\<close>, each operation rounded to binary64. The
  quotient is rounded up to an integer: the ceiling is never below the quotient. With
  notional \<open>4\<close> (quantity \<open>0.4\<close> at price \<open>10\<close>), minimum \<open>5\<close> and step \<open>1\<close> the repaired
  quantity is \<open>1\<close>.
\<close>

theorem minNotional_repair_rounds_up:
  assumes fires: "js_lt (js_mul q p) m"
  shows "minNotionalAdjustedCounterQty q p m s
           = js_mul (Math_ceil (js_div (js_div m p) s)) s
    \<and> (js_div (js_div m p) s \<noteq> NaN
         \<longrightarrow> js_le (js_div (js_div m p) s) (Math_ceil (js_div (js_div m p) s)))
    \<and> minNotionalAdjustedCounterQty (decimalLiteral ''0.4'') (Fin 10) (Fin 5) (Fin 1) = Fin 1"
proof -
  have 0: "minNotionalAdjustedCounterQty q p m s
           = js_mul (Math_ceil (js_div (js_div m p) s)) s"
    using fires by (simp add: minNotionalAdjustedCounterQty_def notionalValue_def)
  have 1: "js_le (js_div (js_div m p) s) (Math_ceil (js_div (js_div m p) s))"
    if "js_div (js_div m p) s \<noteq> NaN"
    using that by (rule Math_ceil_ge)
  have 2: "minNotionalAdjustedCounterQty (decimalLiteral ''0.4'') (Fin 10) (Fin 5) (Fin 1) = Fin 1"
    by (simp add: minNotionalAdjustedCounterQty_def notionalValue_def literal_values fl64_defs
        ceiling_def)
  from 0 1 2 show ?thesis by blast
qed

text \<open>
  The theorem at the second scenario: the notional value \<open>0.4 * 10\<close> rounds to \<open>4\<close>, which
  is below \<open>5\<close>; the quotient \<open>0.5\<close> is rounded up to \<open>1\<close>, and the repaired quantity is
  \<open>1\<close>.
\<close>

theorem minNotional_repair_rounds_up_witness:
  "js_lt (js_mul (decimalLiteral ''0.4'') (Fin 10)) (Fin 5)
   \<and> js_mul (decimalLiteral ''0.4'') (Fin 10) = Fin 4
   \<and> js_div (js_div (Fin 5) (Fin 10)) (Fin 1) = Fin (1 / 2)
   \<and> js_le (js_div (js_div (Fin 5) (Fin 10)) (Fin 1))
         (Math_ceil (js_div (js_div (Fin 5) (Fin 10)) (Fin 1)))
   \<and> minNotionalAdjustedCounterQty (decimalLiteral ''0.4'') (Fin 10) (Fin 5) (Fin 1)
       = js_mul (Math_ceil (js_div (js_div (Fin 5) (Fin 10)) (Fin 1))) (Fin 1)
   \<and> js_mul (Math_ceil (js_div (js_div (Fin 5) (Fin 10)) (Fin 1))) (Fin 1) = Fin 1"
proof -
  have n: "js_mul (decimalLiteral ''0.4'') (Fin 10) = Fin 4"
    by (simp add: literal_values fl64_defs)
  have h: "js_lt (js_mul (decimalLiteral ''0.4'') (Fin 10)) (Fin 5)"
    unfolding n by simp
  have d: "js_div (js_div (Fin 5) (Fin 10)) (Fin 1) = Fin (1 / 2)"
    by (simp add: fl64_defs)
  have r: "js_mul (Math_ceil (Fin (1 / 2))) (Fin 1) = Fin 1"
    by (simp add: fl64_defs ceiling_def)
  from minNotional_repair_rounds_up[OF h, of "Fin 1"] h n d r show ?thesis by simp
qed

text \<open>
  The repaired quantity can lie below the threshold, and it need not be the least step
  that reaches it. With minimum \<open>252\<close>, price \<open>1.4\<close> and step \<open>0.005\<close> the quotient
  \<open>252 / 1.4\<close> rounds to \<open>180\<close>, the division by the step to \<open>36000\<close>, and the repaired
  quantity is \<open>180\<close>; its notional value is below \<open>252\<close>, computed in binary64 and
  exactly, the binary64 number \<open>1.4\<close> being less than \<open>1.4\<close>. With minimum \<open>7\<close>, price
  \<open>100\<close> and step \<open>0.01\<close> the division by the step rounds to a number above \<open>7\<close>, and the
  repaired quantity is \<open>0.08\<close>, although the notional value of \<open>0.07\<close> is not below \<open>7\<close>.
\<close>

theorem minNotional_repair_below_threshold:
  "js_lt (js_mul (Fin 1) (decimalLiteral ''1.4'')) (Fin 252)
   \<and> minNotionalAdjustedCounterQty (Fin 1) (decimalLiteral ''1.4'') (Fin 252)
         (decimalLiteral ''0.005'') = Fin 180
   \<and> js_lt (js_mul (Fin 180) (decimalLiteral ''1.4'')) (Fin 252)
   \<and> decimalLiteral ''1.4'' = Fin (3152519739159347 / 2251799813685248)
   \<and> (180 :: real) * (3152519739159347 / 2251799813685248) < 252
   \<and> js_lt (js_mul (decimalLiteral ''0.01'') (Fin 100)) (Fin 7)
   \<and> minNotionalAdjustedCounterQty (decimalLiteral ''0.01'') (Fin 100) (Fin 7)
         (decimalLiteral ''0.01'') = decimalLiteral ''0.08''
   \<and> js_le (Fin 7) (js_mul (decimalLiteral ''0.07'') (Fin 100))"
proof -
  have a: "js_mul (Fin 1) (decimalLiteral ''1.4'') = Fin (3152519739159347 / 2251799813685248)"
    by (simp add: literal_values fl64_defs)
  have b: "js_div (Fin 252) (decimalLiteral ''1.4'') = Fin 180"
    by (simp add: literal_values fl64_defs)
  have c: "js_div (Fin 180) (decimalLiteral ''0.005'') = Fin 36000"
    by (simp add: literal_values fl64_defs)
  have d: "js_mul (Fin 36000) (decimalLiteral ''0.005'') = Fin 180"
    by (simp add: literal_values fl64_defs)
  have e: "js_mul (Fin 180) (decimalLiteral ''1.4'')
      = Fin (8866461766385663 / 35184372088832)"
    by (simp add: literal_values fl64_defs)
  have r: "minNotionalAdjustedCounterQty (Fin 1) (decimalLiteral ''1.4'') (Fin 252)
         (decimalLiteral ''0.005'') = Fin 180"
    unfolding minNotionalAdjustedCounterQty_def notionalValue_def a b c
    using d by simp
  have v: "decimalLiteral ''0.01'' = Fin (5764607523034235 / 576460752303423488)"
    "decimalLiteral ''0.07'' = Fin (1261007895663739 / 18014398509481984)"
    "decimalLiteral ''0.08'' = Fin (5764607523034235 / 72057594037927936)"
    by (simp_all add: literal_defs fl64_defs)
  have a': "js_mul (decimalLiteral ''0.01'') (Fin 100) = Fin 1"
    by (simp add: v fl64_defs)
  have b': "js_div (Fin 7) (Fin 100) = Fin (1261007895663739 / 18014398509481984)"
    by (simp add: fl64_defs)
  have c': "js_div (Fin (1261007895663739 / 18014398509481984)) (decimalLiteral ''0.01'')
      = Fin (7881299347898369 / 1125899906842624)"
    by (simp add: v fl64_defs)
  have d': "Math_ceil (Fin (7881299347898369 / 1125899906842624)) = Fin 8"
    by (simp add: ceiling_def)
  have e': "js_mul (Fin 8) (decimalLiteral ''0.01'') = decimalLiteral ''0.08''"
    by (simp add: v fl64_defs)
  have f': "js_mul (decimalLiteral ''0.07'') (Fin 100)
      = Fin (7881299347898369 / 1125899906842624)"
    by (simp add: v fl64_defs)
  have r': "minNotionalAdjustedCounterQty (decimalLiteral ''0.01'') (Fin 100) (Fin 7)
         (decimalLiteral ''0.01'') = decimalLiteral ''0.08''"
    unfolding minNotionalAdjustedCounterQty_def notionalValue_def a' b' c' d' e' by simp
  show ?thesis unfolding r e a r' a' f' by (simp add: literal_values)
qed

text \<open>
  Every market order: the quantity before the cap is \<open>NaN\<close> or lies between the minimum
  quantity and the market maximum.
\<close>

lemma bounded_cases:
  assumes "mn \<le> mx"
  shows "boundedCounterQty (Fin mn) (Fin mx) x = NaN
    \<or> (\<exists>b. boundedCounterQty (Fin mn) (Fin mx) x = Fin b \<and> mn \<le> b \<and> b \<le> mx)"
  using assms by (cases x) (auto simp: boundedCounterQty_def)

lemma capped_cases:
  assumes "constraintsInvariant f"
  obtains "cappedQty tv pe ce p ''Market'' f = NaN"
  | c mn mk where "cappedQty tv pe ce p ''Market'' f = Fin c" "minQty f = Fin mn"
      "maxMarketQty f = Fin mk" "mn \<le> c" "c \<le> mk"
proof -
  from assms obtain mn mk mx st nv where f: "minQty f = Fin mn" "maxMarketQty f = Fin mk"
    "maxQty f = Fin mx" "step f = Fin st" "minNotional f = Fin nv"
    and b: "0 < mn" "mn \<le> mk" "mk \<le> mx" "0 < st"
    by (rule constraintsInvariantE)
  define x where
    "x = steppedCounterQty (initialCounterQty (counterTradeValue ce (marginPercentage tv pe)) p)
           (step f)"
  have c: "cappedQty tv pe ce p ''Market'' f
      = Math_min (boundedCounterQty (Fin mn) (Fin mx) x) (Fin mk)"
    by (simp add: cappedQty_def marketAdjustedCounterQty_def f x_def)
  from b have "mn \<le> mx" by simp
  from bounded_cases[OF this, of x] show ?thesis
  proof
    assume "boundedCounterQty (Fin mn) (Fin mx) x = NaN"
    then show ?thesis using c that(1) by simp
  next
    assume "\<exists>b. boundedCounterQty (Fin mn) (Fin mx) x = Fin b \<and> mn \<le> b \<and> b \<le> mx"
    then obtain b' where "boundedCounterQty (Fin mn) (Fin mx) x = Fin b'" "mn \<le> b'" "b' \<le> mx"
      by blast
    then have "cappedQty tv pe ce p ''Market'' f = Fin (min b' mk)" "mn \<le> min b' mk"
      "min b' mk \<le> mk"
      using c b by (simp_all add: Math_min_Fin)
    then show ?thesis using that(2) f by blast
  qed
qed

text \<open>
  Claim C10, as the code has it. The market cap is applied before the repair only. For a
  market order under the constraints invariant in which the repair does not fire, the
  final quantity does not exceed \<open>maxMktOrderQty\<close>, and it is at most \<open>maxMktOrderQty\<close>
  whenever it is a number. And there are market orders under the invariant in which the
  repair fires and the final quantity exceeds \<open>maxMktOrderQty\<close>.
\<close>

theorem market_cap_before_repair:
  assumes inv: "constraintsInvariant f"
    and nofire: "\<not> repairFires tv pe ce p ''Market'' f"
  shows "\<not> js_lt (maxMarketQty f) (sizedQty tv pe ce p ''Market'' f)
    \<and> (sizedQty tv pe ce p ''Market'' f \<noteq> NaN
         \<longrightarrow> js_le (sizedQty tv pe ce p ''Market'' f) (maxMarketQty f))
    \<and> (\<exists>f' tv' pe' ce' p'. constraintsInvariant f' \<and> repairFires tv' pe' ce' p' ''Market'' f'
          \<and> js_lt (maxMarketQty f') (sizedQty tv' pe' ce' p' ''Market'' f'))"
proof -
  from inv obtain mn mk mx st nv where f: "minQty f = Fin mn" "maxMarketQty f = Fin mk"
    "maxQty f = Fin mx" "step f = Fin st" "minNotional f = Fin nv"
    and b: "0 < mn" "mn \<le> mk" "mk \<le> mx" "0 < st"
    by (rule constraintsInvariantE)
  have rep: "repairedQty tv pe ce p ''Market'' f = cappedQty tv pe ce p ''Market'' f"
    using nofire by (simp add: repairedQty_def repairFires_def minNotionalAdjustedCounterQty_def)
  have sz: "sizedQty tv pe ce p ''Market'' f
      = Math_max (Fin mn) (Math_min (Fin mx) (cappedQty tv pe ce p ''Market'' f))"
    by (simp add: sizedQty_def rep finalCounterQty_def f)
  have A: "\<not> js_lt (maxMarketQty f) (sizedQty tv pe ce p ''Market'' f)
    \<and> (sizedQty tv pe ce p ''Market'' f \<noteq> NaN
         \<longrightarrow> js_le (sizedQty tv pe ce p ''Market'' f) (maxMarketQty f))"
  proof (rule capped_cases[OF inv, of tv pe ce p])
    assume "cappedQty tv pe ce p ''Market'' f = NaN"
    then show ?thesis by (simp add: sz f)
  next
    fix c mn' mk'
    assume c: "cappedQty tv pe ce p ''Market'' f = Fin c" "minQty f = Fin mn'"
      "maxMarketQty f = Fin mk'" "mn' \<le> c" "c \<le> mk'"
    with f have "mn' = mn" "mk' = mk" by simp_all
    with c b have "sizedQty tv pe ce p ''Market'' f = Fin c"
      by (simp add: sz Math_min_Fin Math_max_Fin)
    with c show ?thesis by auto
  qed
  have B: "constraintsInvariant
       \<lparr>maxQty = Fin 10, minQty = Fin 1, step = Fin 1, maxMarketQty = Fin 2,
        minNotional = Fin 5\<rparr>
     \<and> repairFires (Fin 0) (Fin 1) (Fin 1) (Fin 1) ''Market''
         \<lparr>maxQty = Fin 10, minQty = Fin 1, step = Fin 1, maxMarketQty = Fin 2,
          minNotional = Fin 5\<rparr>
     \<and> js_lt (maxMarketQty
                \<lparr>maxQty = Fin 10, minQty = Fin 1, step = Fin 1, maxMarketQty = Fin 2,
                 minNotional = Fin 5\<rparr>)
         (sizedQty (Fin 0) (Fin 1) (Fin 1) (Fin 1) ''Market''
            \<lparr>maxQty = Fin 10, minQty = Fin 1, step = Fin 1, maxMarketQty = Fin 2,
             minNotional = Fin 5\<rparr>)"
    by (simp add: sizer_defs constraintsInvariant_def fl64_defs)
  from A B show ?thesis by blast
qed

text \<open>
  The theorem at a market order that needs no repair: equities \<open>100\<close> and \<open>1000\<close>,
  executed value \<open>100\<close> at price \<open>1\<close>; the raw quantity \<open>1000\<close> is clamped to \<open>10\<close> and
  capped to the market maximum \<open>2\<close>, whose notional \<open>2\<close> is not below the minimum \<open>1\<close>.
\<close>

theorem market_cap_before_repair_witness:
  "constraintsInvariant
     \<lparr>maxQty = Fin 10, minQty = Fin 1, step = Fin 1, maxMarketQty = Fin 2,
      minNotional = Fin 1\<rparr>
   \<and> \<not> repairFires (Fin 100) (Fin 100) (Fin 1000) (Fin 1) ''Market''
         \<lparr>maxQty = Fin 10, minQty = Fin 1, step = Fin 1, maxMarketQty = Fin 2,
          minNotional = Fin 1\<rparr>
   \<and> sizedQty (Fin 100) (Fin 100) (Fin 1000) (Fin 1) ''Market''
         \<lparr>maxQty = Fin 10, minQty = Fin 1, step = Fin 1, maxMarketQty = Fin 2,
          minNotional = Fin 1\<rparr> = Fin 2
   \<and> js_le (sizedQty (Fin 100) (Fin 100) (Fin 1000) (Fin 1) ''Market''
         \<lparr>maxQty = Fin 10, minQty = Fin 1, step = Fin 1, maxMarketQty = Fin 2,
          minNotional = Fin 1\<rparr>) (Fin 2)"
proof -
  have inv: "constraintsInvariant
     \<lparr>maxQty = Fin 10, minQty = Fin 1, step = Fin 1, maxMarketQty = Fin 2,
      minNotional = Fin 1\<rparr>"
    by (simp add: constraintsInvariant_def)
  have nofire: "\<not> repairFires (Fin 100) (Fin 100) (Fin 1000) (Fin 1) ''Market''
         \<lparr>maxQty = Fin 10, minQty = Fin 1, step = Fin 1, maxMarketQty = Fin 2,
          minNotional = Fin 1\<rparr>"
    by (simp add: sizer_defs fl64_defs)
  have val: "sizedQty (Fin 100) (Fin 100) (Fin 1000) (Fin 1) ''Market''
         \<lparr>maxQty = Fin 10, minQty = Fin 1, step = Fin 1, maxMarketQty = Fin 2,
          minNotional = Fin 1\<rparr> = Fin 2"
    by (simp add: sizer_defs fl64_defs)
  from market_cap_before_repair[OF inv nofire] inv nofire val show ?thesis by simp
qed

text \<open>
  A market order under the invariant, without repair, whose final quantity is not at most
  \<open>maxMktOrderQty\<close>: with nothing executed and a trading equity of \<open>0\<close> the margin
  fraction is \<open>0 / 0\<close>, every later constant is \<open>NaN\<close>, no comparison with \<open>NaN\<close> holds,
  so the repair does not fire and the final quantity \<open>NaN\<close> is not at most the cap.
\<close>

theorem market_cap_NaN:
  "constraintsInvariant
     \<lparr>maxQty = Fin 10, minQty = Fin 1, step = Fin 1, maxMarketQty = Fin 2,
      minNotional = Fin 1\<rparr>
   \<and> \<not> repairFires (Fin 0) (Fin 0) (Fin 1000) (Fin 1) ''Market''
         \<lparr>maxQty = Fin 10, minQty = Fin 1, step = Fin 1, maxMarketQty = Fin 2,
          minNotional = Fin 1\<rparr>
   \<and> sizedQty (Fin 0) (Fin 0) (Fin 1000) (Fin 1) ''Market''
         \<lparr>maxQty = Fin 10, minQty = Fin 1, step = Fin 1, maxMarketQty = Fin 2,
          minNotional = Fin 1\<rparr> = NaN
   \<and> \<not> js_le (sizedQty (Fin 0) (Fin 0) (Fin 1000) (Fin 1) ''Market''
         \<lparr>maxQty = Fin 10, minQty = Fin 1, step = Fin 1, maxMarketQty = Fin 2,
          minNotional = Fin 1\<rparr>) (Fin 2)"
  by (simp add: sizer_defs constraintsInvariant_def)

section \<open>Serialisation of the quantity\<close>

lemma digitChar_not_point: "d < 10 \<Longrightarrow> digitChar d \<noteq> CHR ''.''"
proof -
  assume "d < 10"
  then have "digitChar d \<in> set ''0123456789''"
    unfolding digitChar_def by (intro nth_mem) simp
  then show ?thesis by auto
qed

lemma decimalDigits_no_point: "CHR ''.'' \<notin> set (decimalDigits n)"
proof (induction n rule: decimalDigits.induct)
  case (1 n)
  show ?case
  proof (cases "n < 10")
    case True
    then show ?thesis using digitChar_not_point[of n] by (subst decimalDigits.simps) auto
  next
    case False
    have "n mod 10 < 10" by simp
    then have "digitChar (n mod 10) \<noteq> CHR ''.''" by (rule digitChar_not_point)
    with False 1 show ?thesis by (subst decimalDigits.simps) auto
  qed
qed

lemma fractionDigits_point:
  assumes "CHR ''.'' \<notin> set a"
  shows "fractionDigits (a @ ''.'' @ b) = length b"
proof -
  from assms have "\<forall>c\<in>set a. c \<noteq> CHR ''.''" by auto
  then have D: "dropWhile (\<lambda>c. c \<noteq> CHR ''.'') (a @ ''.'' @ b) = ''.'' @ b"
    by (simp add: dropWhile_append3)
  show ?thesis unfolding fractionDigits_def D by simp
qed

lemma fractionDigits_no_point:
  assumes "CHR ''.'' \<notin> set a"
  shows "fractionDigits a = 0"
proof -
  from assms have D: "dropWhile (\<lambda>c. c \<noteq> CHR ''.'') a = []" by auto
  show ?thesis unfolding fractionDigits_def D by simp
qed

text \<open>The digits of \<open>toFixed\<close>: no point for \<open>f = 0\<close>, else a point before \<open>f\<close> characters.\<close>

lemma fixedDigits_shape:
  "\<exists>a b. fixedDigits x f = a @ (if f \<noteq> 0 then ''.'' @ b else []) \<and> CHR ''.'' \<notin> set a
      \<and> (f \<noteq> 0 \<longrightarrow> length b = f)"
proof (cases "f = 0")
  case True
  then show ?thesis by (simp add: fixedDigits_def Let_def decimalDigits_no_point)
next
  case False
  define m where "m = decimalDigits (nat \<lfloor>x * 10 ^ f + 1 / 2\<rfloor>)"
  define m' where
    "m' = (if length m \<le> f then replicate (f + 1 - length m) (CHR ''0'') @ m else m)"
  define k' where "k' = (if length m \<le> f then f + 1 else length m)"
  have m: "CHR ''.'' \<notin> set m" unfolding m_def by (rule decimalDigits_no_point)
  have m': "CHR ''.'' \<notin> set m'" using m by (auto simp: m'_def)
  have len: "length m' = k'" by (auto simp: m'_def k'_def)
  have k': "f < k'" by (auto simp: k'_def)
  have eq: "fixedDigits x f = take (k' - f) m' @ ''.'' @ drop (k' - f) m'"
    using False by (simp add: fixedDigits_def Let_def m_def m'_def k'_def)
  have 1: "CHR ''.'' \<notin> set (take (k' - f) m')" using m' by (auto dest: in_set_takeD)
  have 2: "length (drop (k' - f) m') = f" using len k' by simp
  have "fixedDigits x f = take (k' - f) m' @ (if f \<noteq> 0 then ''.'' @ drop (k' - f) m' else [])"
    using eq False by simp
  with 1 2 show ?thesis by blast
qed

lemma fractionDigits_fixedDigits:
  assumes "CHR ''.'' \<notin> set pre"
  shows "fractionDigits (pre @ fixedDigits x f) = f"
proof -
  obtain a b where ab: "fixedDigits x f = a @ (if f \<noteq> 0 then ''.'' @ b else [])"
    "CHR ''.'' \<notin> set a" "f \<noteq> 0 \<longrightarrow> length b = f"
    using fixedDigits_shape by blast
  show ?thesis
  proof (cases "f = 0")
    case True
    then show ?thesis using ab assms by (simp add: fractionDigits_no_point)
  next
    case False
    then have "pre @ fixedDigits x f = (pre @ a) @ ''.'' @ b" using ab by simp
    moreover have "CHR ''.'' \<notin> set (pre @ a)" using ab assms by simp
    ultimately show ?thesis using fractionDigits_point[of "pre @ a" b] ab False by simp
  qed
qed

lemma toFixed_digits:
  assumes "0 \<le> d" "d \<le> 100" "\<bar>x\<bar> < 10 ^ 21"
  shows "\<exists>str. toFixed js (Fin x) (Fin (of_int d)) = Inr str \<and> int (fractionDigits str) = d"
proof -
  have "toFixed js (Fin x) (Fin (of_int d)) =
      Inr ((if x < 0 then ''-'' else []) @ fixedDigits \<bar>x\<bar> (nat d))"
    using assms by (simp add: toFixed_def)
  moreover have
    "fractionDigits ((if x < 0 then ''-'' else []) @ fixedDigits \<bar>x\<bar> (nat d)) = nat d"
    by (rule fractionDigits_fixedDigits) simp
  ultimately show ?thesis using assms by simp
qed

text \<open>
  For a step between a power of ten \<open>10^k\<close> and three times that power, with
  \<open>-100 \<le> k \<le> 0\<close> (the steps \<open>1\<close>, \<open>0.1\<close>, \<open>0.25\<close>, \<open>0.001\<close>), and a finite quantity
  below \<open>10^21\<close> in absolute value, \<open>toFixed\<close> returns a string, and the string has
  exactly \<open>-k\<close> characters after its decimal point (none, and no point, when that is
  \<open>0\<close>).
\<close>

lemma toFixed_fraction_digits:
  assumes "10 powr of_int k \<le> s" "s \<le> 3 * 10 powr of_int k" "- 100 \<le> k" "k \<le> 0"
    "\<bar>x\<bar> < 10 ^ 21"
  shows "\<exists>str. toFixed js (Fin x) (getDecimalPlaces (Fin s)) = Inr str
           \<and> int (fractionDigits str) = - k"
proof -
  have "\<bar>k\<bar> \<le> 1000" using assms(3,4) by simp
  with assms(1,2) have g: "getDecimalPlaces (Fin s) = Fin (of_int (- k))"
    by (rule getDecimalPlaces_near_power)
  have r: "0 \<le> - k" "- k \<le> 100" using assms(3,4) by simp_all
  from toFixed_digits[OF r assms(5), of js] show ?thesis unfolding g .
qed

text \<open>
  The step \<open>0.001\<close> gives \<open>3\<close> places: the quantity \<open>0.5\<close> becomes \<open>0.500\<close>. And the
  binary64 number \<open>0.15\<close>, a little below \<open>0.15\<close>, becomes \<open>0.1\<close> with one place.
\<close>

lemma toFixed_examples:
  "getDecimalPlaces (decimalLiteral ''0.001'') = Fin 3"
  "toFixed decimalBuiltins (decimalLiteral ''0.5'') (getDecimalPlaces (decimalLiteral ''0.001''))
     = Inr ''0.500''"
  "toFixed decimalBuiltins (decimalLiteral ''0.15'') (Fin 1) = Inr ''0.1''"
proof -
  have s: "decimalLiteral ''0.001'' = Fin (1152921504606847 / 1152921504606846976)"
    and h: "decimalLiteral ''0.5'' = Fin (1 / 2)"
    and q: "decimalLiteral ''0.15'' = Fin (5404319552844595 / 36028797018963968)"
    by (simp_all add: literal_defs fl64_defs)
  show g: "getDecimalPlaces (decimalLiteral ''0.001'') = Fin 3"
    unfolding s by (rule getDecimalPlaces_examples)
  have n: "nat \<lfloor>(1 / 2 :: real) * 10 ^ 3 + 1 / 2\<rfloor> = 500" by simp
  have dd: "decimalDigits 500 = ''500''"
    by (simp add: decimalDigits.simps digitChar_def)
  have fd: "fixedDigits (1 / 2) 3 = ''0.500''"
    unfolding fixedDigits_def Let_def n dd by simp
  show "toFixed decimalBuiltins (decimalLiteral ''0.5'')
      (getDecimalPlaces (decimalLiteral ''0.001'')) = Inr ''0.500''"
    unfolding g h by (simp add: toFixed_def fd)
  have n1: "nat \<lfloor>(5404319552844595 / 36028797018963968 :: real) * 10 ^ Suc 0 + 1 / 2\<rfloor> = 1"
    by simp
  have d1: "decimalDigits 1 = ''1''"
    by (simp add: decimalDigits.simps digitChar_def)
  have f1: "fixedDigits (5404319552844595 / 36028797018963968) (Suc 0) = ''0.1''"
    unfolding fixedDigits_def Let_def n1 d1 by simp
  show "toFixed decimalBuiltins (decimalLiteral ''0.15'') (Fin 1) = Inr ''0.1''"
    unfolding q by (simp add: toFixed_def f1)
qed

section \<open>The classifier\<close>

lemma startsWith_prefix: "startsWith s p \<longleftrightarrow> prefix p s"
  unfolding startsWith_def
proof
  assume "take (length p) s = p"
  then show "prefix p s" by (metis take_is_prefix)
next
  assume "prefix p s"
  then show "take (length p) s = p" by (auto simp: prefix_def)
qed

text \<open>
  Claim C2. \<open>respondToOrder\<close> holds exactly when the status of the event is one of
  \<open>New\<close>, \<open>Filled\<close>, \<open>PartiallyFilled\<close>, \<open>Created\<close>, its creation origin is
  \<open>CreateByUser\<close>, and its link identifier does not begin with \<open>counter_\<close>; two events
  that agree on these three fields get the same decision.
\<close>

theorem respondToOrder_iff:
  "(respondToOrder e \<longleftrightarrow>
      orderStatus e \<in> {''New'', ''Filled'', ''PartiallyFilled'', ''Created''}
      \<and> createType e = ''CreateByUser''
      \<and> \<not> prefix ''counter_'' (WSAccountOrder.orderLinkId e))
   \<and> (\<forall>e'. orderStatus e' = orderStatus e \<and> createType e' = createType e
           \<and> WSAccountOrder.orderLinkId e' = WSAccountOrder.orderLinkId e
         \<longrightarrow> respondToOrder e' = respondToOrder e)"
  by (auto simp: respondToOrder_def OrderStatusToRespondTo_def startsWith_prefix)

text \<open>
  The theorem at the filled order of a user, which is mirrored, and at the same order
  with the link identifier \<open>counter_abc123\<close>, which is not.
\<close>

theorem respondToOrder_iff_witness:
  "respondToOrder sampleOrder
   \<and> \<not> prefix ''counter_'' (WSAccountOrder.orderLinkId sampleOrder)
   \<and> prefix ''counter_'' ''counter_abc123''
   \<and> \<not> respondToOrder (sampleOrder\<lparr>WSAccountOrder.orderLinkId := ''counter_abc123''\<rparr>)"
  using respondToOrder_iff[of sampleOrder]
    respondToOrder_iff[of "sampleOrder\<lparr>WSAccountOrder.orderLinkId := ''counter_abc123''\<rparr>"]
  by (simp add: sampleOrder_def)

section \<open>The counter order\<close>

text \<open>
  Claim C4. The counter order has the side of the event inverted (\<open>Buy\<close> to \<open>Sell\<close>,
  \<open>Sell\<close> to \<open>Buy\<close>); order type, time in force and position index are those of the
  event; the price is present exactly when the order type is \<open>Limit\<close>, and then it is the
  price of the event; \<open>reduceOnly\<close> and \<open>closeOnTrigger\<close> are false; the link identifier
  is \<open>counter_\<close> followed by the order identifier of the event.
\<close>

theorem counterOrder_fields:
  "(WSAccountOrder.side e = ''Buy'' \<longrightarrow> side (counterOrder e q) = ''Sell'')
   \<and> (WSAccountOrder.side e = ''Sell'' \<longrightarrow> side (counterOrder e q) = ''Buy'')
   \<and> orderType (counterOrder e q) = WSAccountOrder.orderType e
   \<and> timeInForce (counterOrder e q) = WSAccountOrder.timeInForce e
   \<and> positionIdx (counterOrder e q) = WSAccountOrder.positionIdx e
   \<and> (price (counterOrder e q) \<noteq> None \<longleftrightarrow> WSAccountOrder.orderType e = ''Limit'')
   \<and> (WSAccountOrder.orderType e = ''Limit''
        \<longrightarrow> price (counterOrder e q) = Some (WSAccountOrder.price e))
   \<and> \<not> reduceOnly (counterOrder e q)
   \<and> \<not> closeOnTrigger (counterOrder e q)
   \<and> orderLinkId (counterOrder e q) = ''counter_'' @ orderId e
   \<and> qty (counterOrder e q) = q"
  by (simp add: counterOrder_def counterSide_def)

text \<open>
  The theorem at the limit buy order \<open>abc\<close>, and at the same order sold at market: the
  first counter order sells at the price \<open>100\<close>, the second buys and has no price.
\<close>

theorem counterOrder_fields_witness:
  "WSAccountOrder.side sampleOrder = ''Buy'' \<and> side (counterOrder sampleOrder ''5'') = ''Sell''
   \<and> WSAccountOrder.orderType sampleOrder = ''Limit''
   \<and> price (counterOrder sampleOrder ''5'') = Some ''100''
   \<and> orderLinkId (counterOrder sampleOrder ''5'') = ''counter_abc''
   \<and> side (counterOrder (sampleOrder\<lparr>WSAccountOrder.side := ''Sell'',
                                     WSAccountOrder.orderType := ''Market''\<rparr>) ''5'') = ''Buy''
   \<and> price (counterOrder (sampleOrder\<lparr>WSAccountOrder.side := ''Sell'',
                                      WSAccountOrder.orderType := ''Market''\<rparr>) ''5'') = None"
  using counterOrder_fields[of sampleOrder "''5''"]
    counterOrder_fields[of "sampleOrder\<lparr>WSAccountOrder.side := ''Sell'',
                                        WSAccountOrder.orderType := ''Market''\<rparr>" "''5''"]
  by (simp add: sampleOrder_def)

text \<open>
  Claim C8. For an event whose side is \<open>Buy\<close> or \<open>Sell\<close>, the side of the counter order
  is the other of the two, so that inverting it again (\<open>Buy\<close> to \<open>Sell\<close>, anything else to
  \<open>Buy\<close>, as the code inverts) gives the side of the event back; and take-profit and
  stop-loss of the counter order are the stop-loss and the take-profit of the event.
\<close>

theorem counterOrder_round_trip:
  assumes "WSAccountOrder.side e \<in> {''Buy'', ''Sell''}"
  shows "(if side (counterOrder e q) = ''Buy'' then ''Sell'' else ''Buy'') = WSAccountOrder.side e
    \<and> side (counterOrder e q) \<in> {''Buy'', ''Sell''}
    \<and> side (counterOrder e q) \<noteq> WSAccountOrder.side e
    \<and> counterSide (side (counterOrder e q)) = WSAccountOrder.side e
    \<and> takeProfit (counterOrder e q) = WSAccountOrder.stopLoss e
    \<and> stopLoss (counterOrder e q) = WSAccountOrder.takeProfit e"
  using assms by (auto simp: counterOrder_def counterSide_def)

text \<open>
  The theorem at the buy order with take-profit \<open>120\<close> and stop-loss \<open>90\<close>, whose counter
  order sells.
\<close>

theorem counterOrder_round_trip_witness:
  "WSAccountOrder.side sampleOrder \<in> {''Buy'', ''Sell''}
   \<and> WSAccountOrder.side sampleOrder = ''Buy''
   \<and> side (counterOrder sampleOrder ''5'') = ''Sell''
   \<and> (if side (counterOrder sampleOrder ''5'') = ''Buy'' then ''Sell'' else ''Buy'') = ''Buy''
   \<and> takeProfit (counterOrder sampleOrder ''5'') = ''90''
   \<and> stopLoss (counterOrder sampleOrder ''5'') = ''120''"
proof -
  have h: "WSAccountOrder.side sampleOrder \<in> {''Buy'', ''Sell''}"
    by (simp add: sampleOrder_def)
  have b: "WSAccountOrder.side sampleOrder = ''Buy''"
    and tp: "WSAccountOrder.takeProfit sampleOrder = ''120''"
    and sl: "WSAccountOrder.stopLoss sampleOrder = ''90''"
    by (simp_all add: sampleOrder_def)
  have s: "side (counterOrder sampleOrder ''5'') = ''Sell''"
    by (simp add: counterOrder_def counterSide_def b)
  from counterOrder_round_trip[OF h, of "''5''"] h b s show ?thesis
    unfolding tp sl by simp
qed

section \<open>Processing one event\<close>

lemmas sample_defs = sampleWallet_def sampleInstruments_def sampleEnv_def sampleOrder_def
  submitAnswers_def instrumentsAnswer_def everyOrder_def secondOrder_def

text \<open>The numbers of the concrete messages, and the quantity of the filled order.\<close>

lemma message_values:
  "ToNumber decimalBuiltins s = (if s = [] then Fin 0 else decimalLiteral s)"
  "parseFloat decimalBuiltins s = decimalLiteral s"
  "decimalLiteral ''0'' = Fin 0" "decimalLiteral ''1'' = Fin 1" "decimalLiteral ''5'' = Fin 5"
  "decimalLiteral ''10'' = Fin 10" "decimalLiteral ''50'' = Fin 50"
  "decimalLiteral ''100'' = Fin 100" "decimalLiteral ''500'' = Fin 500"
  "decimalLiteral ''1000'' = Fin 1000" "decimalLiteral ''10000'' = Fin 10000"
  by (simp_all add: decimalBuiltins_def literal_defs fl64_defs)

lemma sample_quantities:
  "sizedQty (Fin 500) (Fin 10000) (Fin 1000) (Fin 100) ''Limit''
     \<lparr>maxQty = Fin 100, minQty = Fin 1, step = Fin 1, maxMarketQty = Fin 50,
      minNotional = Fin 5\<rparr> = Fin 1"
  "sizedQty (Fin 500) (Fin 10000) (Fin 1000) (Fin 100) ''Limit''
     \<lparr>maxQty = Fin 100, minQty = Fin 1, step = Fin 10, maxMarketQty = Fin 50,
      minNotional = Fin 5\<rparr> = Fin 1"
  "sizedQty (Fin 500) (Fin 0) (Fin 1000) (Fin 100) ''Limit''
     \<lparr>maxQty = Fin 100, minQty = Fin 1, step = Fin 1, maxMarketQty = Fin 50,
      minNotional = Fin 5\<rparr> = Fin 100"
  "sizedQty (Fin 0) (Fin 0) (Fin 1000) (Fin 100) ''Limit''
     \<lparr>maxQty = Fin 100, minQty = Fin 1, step = Fin 1, maxMarketQty = Fin 50,
      minNotional = Fin 5\<rparr> = NaN"
  by (simp_all add: sizer_defs fl64_defs)

lemma sample_strings:
  "toFixed decimalBuiltins (Fin 1) (getDecimalPlaces (Fin 1)) = Inr ''1''"
  "toFixed decimalBuiltins (Fin 100) (getDecimalPlaces (Fin 1)) = Inr ''100''"
  "toFixed decimalBuiltins NaN (getDecimalPlaces (Fin 1)) = Inr ''NaN''"
  "toFixed decimalBuiltins (Fin 1) (getDecimalPlaces (Fin 10)) = Inl RangeError"
  by (simp_all add: toFixed_def getDecimalPlaces_examples fixedDigits_def digitChar_def
      decimalDigits.simps)

lemmas orch_defs = placeCounterOrder_def getBalanceOfCoin_def getSymbolInfo_def
  lotSizeNumbers_def submitCounterOrder_def sendTelegramMessage_def counterOrder_def
  counterSide_def ASSUMING_COIN_def counterOrderMessage_def originalOrderMessage_def
  orDefault_def orDefaultOpt_def newline_def

lemmas classify_defs = respondToOrder_def OrderStatusToRespondTo_def startsWith_def

text \<open>Nothing before the \<open>try\<close> block hands an order to the exchange.\<close>

lemma getBalanceOfCoin_logs:
  "getBalanceOfCoin js client c account = (t, r) \<Longrightarrow> SubmitOrder co \<notin> set t"
  by (auto simp: getBalanceOfCoin_def split: promise.splits if_splits list.splits option.splits)

lemma getSymbolInfo_logs:
  "getSymbolInfo w s = (t, r) \<Longrightarrow> SubmitOrder co \<notin> set t"
  by (auto simp: getSymbolInfo_def split: promise.splits if_splits list.splits bool.splits)

lemma placeCounterOrder_submitted:
  assumes "SubmitOrder co \<in> set (fst (placeCounterOrder js w orderData))"
  shows "snd (placeCounterOrder js w orderData) = Inr ()"
  using assms unfolding placeCounterOrder_def Let_def
  by (auto split: prod.splits option.splits sum.splits
      dest: getBalanceOfCoin_logs getSymbolInfo_logs)

lemma placeCounterOrder_reaches_submit:
  assumes "getBalanceOfCoin js (tradingWallet w) ASSUMING_COIN ''trading'' = (t1, Some tb)"
    and "getBalanceOfCoin js (counterWallet w) ASSUMING_COIN ''counter'' = (t2, Some cb)"
    and "getSymbolInfo w (WSAccountOrder.symbol orderData) = (t3, Inr info)"
    and "toFixed js
           (sizedQty (parseFloat js (cumExecValue orderData)) (equity tb) (equity cb)
              (ToNumber js (WSAccountOrder.price orderData))
              (WSAccountOrder.orderType orderData)
              (lotSizeNumbers js (lotSizeFilter info)))
           (getDecimalPlaces (step (lotSizeNumbers js (lotSizeFilter info)))) = Inr s"
  shows "placeCounterOrder js w orderData =
     (t1 @ t2 @ t3 @ [Log Info ''Placing counter order:'']
      @ sendTelegramMessage w (counterOrderMessage (counterOrder orderData s))
      @ submitCounterOrder w (counterOrder orderData s), Inr ())"
  using assms by (simp add: placeCounterOrder_def Let_def)

lemma onUpdate_continues:
  assumes "respondToOrder orderData"
    and "snd (placeCounterOrder js (world orderData) orderData) = Inr ()"
  shows "onUpdate js world (orderData # rest) =
     (Log Info ''New original order detected:''
        # sendTelegramMessage (world orderData) (originalOrderMessage orderData)
        @ fst (placeCounterOrder js (world orderData) orderData)
        @ fst (onUpdate js world rest),
      snd (onUpdate js world rest))"
  using assms by (auto simp: Let_def split: prod.splits sum.splits)

text \<open>
  Claim C6. The result code \<open>110007\<close> is logged as a warning and nothing else happens;
  a request that the transport rejects is caught and logged as an error; whenever
  \<open>placeCounterOrder\<close> has handed an order to the exchange it returns, whatever the
  outcome of the submission; and the handler then goes on with the rest of the batch.
\<close>

theorem submission_outcomes_handled:
  "(\<forall>r. submitOrder w co = Resolved r \<and> retCode r = 110007 \<longrightarrow>
        submitCounterOrder w co =
          [SubmitOrder co, Log Warn ''Insufficent balance in countertrade account for order''])
   \<and> (\<forall>ex. submitOrder w co = Rejected ex \<longrightarrow>
        submitCounterOrder w co =
          SubmitOrder co # Log Error ''Error placing counter order:''
          # sendTelegramMessage w (''Error placing order: '' @ symbol co @ '' '' @ side co))
   \<and> (SubmitOrder co \<in> set (fst (placeCounterOrder js w orderData)) \<longrightarrow>
        snd (placeCounterOrder js w orderData) = Inr ())
   \<and> (respondToOrder orderData
        \<and> SubmitOrder co \<in> set (fst (placeCounterOrder js (world orderData) orderData)) \<longrightarrow>
        onUpdate js world (orderData # rest) =
          (Log Info ''New original order detected:''
             # sendTelegramMessage (world orderData) (originalOrderMessage orderData)
             @ fst (placeCounterOrder js (world orderData) orderData)
             @ fst (onUpdate js world rest),
           snd (onUpdate js world rest)))"
proof (intro conjI allI impI)
  fix r
  assume "submitOrder w co = Resolved r \<and> retCode r = 110007"
  then show "submitCounterOrder w co =
      [SubmitOrder co, Log Warn ''Insufficent balance in countertrade account for order'']"
    by (simp add: submitCounterOrder_def)
next
  fix ex
  assume "submitOrder w co = Rejected ex"
  then show "submitCounterOrder w co =
      SubmitOrder co # Log Error ''Error placing counter order:''
      # sendTelegramMessage w (''Error placing order: '' @ symbol co @ '' '' @ side co)"
    by (simp add: submitCounterOrder_def)
next
  assume "SubmitOrder co \<in> set (fst (placeCounterOrder js w orderData))"
  then show "snd (placeCounterOrder js w orderData) = Inr ()"
    by (rule placeCounterOrder_submitted)
next
  assume a: "respondToOrder orderData
    \<and> SubmitOrder co \<in> set (fst (placeCounterOrder js (world orderData) orderData))"
  then have "SubmitOrder co \<in> set (fst (placeCounterOrder js (world orderData) orderData))"
    by simp
  then have "snd (placeCounterOrder js (world orderData) orderData) = Inr ()"
    by (rule placeCounterOrder_submitted)
  with a show "onUpdate js world (orderData # rest) =
      (Log Info ''New original order detected:''
         # sendTelegramMessage (world orderData) (originalOrderMessage orderData)
         @ fst (placeCounterOrder js (world orderData) orderData)
         @ fst (onUpdate js world rest),
       snd (onUpdate js world rest))"
    by (intro onUpdate_continues) simp_all
qed

text \<open>
  The theorem at the filled order when the exchange answers \<open>110007\<close>, and when the
  transport rejects the submission: the order is handed over, one warning (or one error)
  is logged, \<open>placeCounterOrder\<close> returns, and the second order of the batch is
  processed as well.
\<close>

theorem submission_outcomes_handled_witness:
  "submitOrder
      (submitAnswers (Resolved \<lparr>retCode = 110007, retMsg = ''insufficient'', result = ()\<rparr>))
      (counterOrder sampleOrder ''1'')
     = Resolved \<lparr>retCode = 110007, retMsg = ''insufficient'', result = ()\<rparr>
   \<and> submitCounterOrder
      (submitAnswers (Resolved \<lparr>retCode = 110007, retMsg = ''insufficient'', result = ()\<rparr>))
      (counterOrder sampleOrder ''1'')
     = [SubmitOrder (counterOrder sampleOrder ''1''),
        Log Warn ''Insufficent balance in countertrade account for order'']
   \<and> submitOrder (submitAnswers (Rejected TransportError)) (counterOrder sampleOrder ''1'')
     = Rejected TransportError
   \<and> placeCounterOrder decimalBuiltins (submitAnswers (Rejected TransportError)) sampleOrder
     = ([Log Info ''Placing counter order:'', SubmitOrder (counterOrder sampleOrder ''1''),
         Log Error ''Error placing counter order:''], Inr ())
   \<and> respondToOrder sampleOrder
   \<and> snd (onUpdate decimalBuiltins (everyOrder (submitAnswers (Rejected TransportError)))
            [sampleOrder, secondOrder]) = Inr ()
   \<and> SubmitOrder (counterOrder secondOrder ''1'')
       \<in> set (fst (onUpdate decimalBuiltins
                      (everyOrder (submitAnswers (Rejected TransportError)))
                      [sampleOrder, secondOrder]))"
proof -
  have p1: "placeCounterOrder decimalBuiltins (submitAnswers (Rejected TransportError)) sampleOrder
     = ([Log Info ''Placing counter order:'', SubmitOrder (counterOrder sampleOrder ''1''),
         Log Error ''Error placing counter order:''], Inr ())"
    by (simp add: sample_defs orch_defs message_values sample_quantities sample_strings)
  have p2: "placeCounterOrder decimalBuiltins (submitAnswers (Rejected TransportError)) secondOrder
     = ([Log Info ''Placing counter order:'', SubmitOrder (counterOrder secondOrder ''1''),
         Log Error ''Error placing counter order:''], Inr ())"
    by (simp add: sample_defs orch_defs message_values sample_quantities sample_strings)
  have tg: "\<not> TELEGRAM_ENABLED (submitAnswers (Rejected TransportError))"
    by (simp add: submitAnswers_def sampleEnv_def)
  have r1: "respondToOrder sampleOrder" and r2: "respondToOrder secondOrder"
    by (simp_all add: sample_defs classify_defs)
  have m: "SubmitOrder (counterOrder sampleOrder ''1'')
      \<in> set (fst (placeCounterOrder decimalBuiltins
                     (everyOrder (submitAnswers (Rejected TransportError)) sampleOrder)
                     sampleOrder))"
    by (simp add: everyOrder_def p1)
  have u2: "onUpdate decimalBuiltins (everyOrder (submitAnswers (Rejected TransportError)))
      [secondOrder]
     = ([Log Info ''New original order detected:'', Log Info ''Placing counter order:'',
         SubmitOrder (counterOrder secondOrder ''1''),
         Log Error ''Error placing counter order:''], Inr ())"
    using r2 tg by (simp add: everyOrder_def p2 sendTelegramMessage_def)
  from submission_outcomes_handled
    [where w = "submitAnswers
                  (Resolved \<lparr>retCode = 110007, retMsg = ''insufficient'', result = ()\<rparr>)"
       and co = "counterOrder sampleOrder ''1''"]
    submission_outcomes_handled
    [where w = "submitAnswers (Rejected TransportError)"
       and co = "counterOrder sampleOrder ''1''" and js = decimalBuiltins
       and orderData = sampleOrder
       and world = "everyOrder (submitAnswers (Rejected TransportError))"
       and rest = "[secondOrder]"]
    r1 m p1 u2 tg
  show ?thesis
    by (simp add: submitAnswers_def everyOrder_def sendTelegramMessage_def)
qed

section \<open>Failures while an event is processed\<close>

lemma final_in_range:
  assumes "mn \<le> mx" "x \<noteq> NaN"
  shows "js_le (Fin mn) (finalCounterQty (Fin mn) (Fin mx) x)
       \<and> js_le (finalCounterQty (Fin mn) (Fin mx) x) (Fin mx)"
  using assms by (cases x) (auto simp: finalCounterQty_def)

lemma capped_infinite:
  assumes f: "minQty f = Fin mn" "maxMarketQty f = Fin mk" "maxQty f = Fin mx" "step f = Fin st"
    and b: "mn \<le> mk" "mk \<le> mx" "0 < st"
    and i: "initialCounterQty (counterTradeValue ce (marginPercentage tv pe)) p = PosInf"
  shows "cappedQty tv pe ce p ot f = Fin (if ot = ''Market'' then mk else mx)"
  using b by (simp add: cappedQty_def Let_def i f steppedCounterQty_def boundedCounterQty_def
      marketAdjustedCounterQty_def)

lemma repaired_not_NaN:
  assumes c: "cappedQty tv pe ce (Fin p) ot f = Fin c" and nv: "minNotional f = Fin nv"
    and st: "step f = Fin st" "0 < st"
  shows "repairedQty tv pe ce (Fin p) ot f \<noteq> NaN"
proof (cases "js_lt (js_mul (Fin c) (Fin p)) (Fin nv)")
  case False
  then show ?thesis
    by (simp add: repairedQty_def minNotionalAdjustedCounterQty_def notionalValue_def c nv)
next
  case True
  have d: "js_div (Fin nv) (Fin p) \<noteq> NaN"
  proof (cases "p = 0")
    case True
    with \<open>js_lt (js_mul (Fin c) (Fin p)) (Fin nv)\<close> have "0 < nv" by (simp add: fl64_def)
    with True show ?thesis by simp
  next
    case False
    then show ?thesis by simp
  qed
  then have "js_div (js_div (Fin nv) (Fin p)) (Fin st) \<noteq> NaN"
    using st(2) by (rule js_div_pos_not_NaN)
  then have "js_mul (Math_ceil (js_div (js_div (Fin nv) (Fin p)) (Fin st))) (Fin st) \<noteq> NaN"
    using ceil_step_shape[OF st(2)] by (intro shape_not_NaN)
  with True show ?thesis
    by (simp add: repairedQty_def minNotionalAdjustedCounterQty_def notionalValue_def c nv
        st(1) del: js_mul.simps js_div.simps)
qed

text \<open>
  A zero divisor with positive dividends: the raw quantity is \<open>+Infinity\<close>, the clamp
  makes it the maximum, and the final quantity is finite and within the bounds. When the
  price is the zero divisor the dividend is the counter trade value, which is positive
  unless a division or product before it has underflowed to \<open>0\<close>.
\<close>

lemma sized_zero_divisor:
  assumes inv: "constraintsInvariant f"
    and tv: "isPositive tv" and ce: "isPositive ce"
    and z: "(pe = Fin 0 \<and> isPositive p)
      \<or> (isPositive pe \<and> counterTradeValue ce (marginPercentage tv pe) \<noteq> Fin 0 \<and> p = Fin 0)"
  shows "js_le (minQty f) (sizedQty tv pe ce p ot f)
       \<and> js_le (sizedQty tv pe ce p ot f) (maxQty f)"
proof -
  from inv obtain mn mk mx st nv where f: "minQty f = Fin mn" "maxMarketQty f = Fin mk"
    "maxQty f = Fin mx" "step f = Fin st" "minNotional f = Fin nv"
    and b: "0 < mn" "mn \<le> mk" "mk \<le> mx" "0 < st"
    by (rule constraintsInvariantE)
  from tv obtain v where v: "tv = Fin v" "0 < v" by (rule isPositiveE)
  from ce obtain e2 where e2: "ce = Fin e2" "0 < e2" by (rule isPositiveE)
  from z obtain pr where pr: "p = Fin pr" by (auto elim: isPositiveE)
  have i: "initialCounterQty (counterTradeValue ce (marginPercentage tv pe)) p = PosInf"
    using z
  proof
    assume "pe = Fin 0 \<and> isPositive p"
    then show ?thesis using v e2 pr
      by (simp add: initialCounterQty_def counterTradeValue_def marginPercentage_def
          isPositive_def)
  next
    assume a: "isPositive pe \<and> counterTradeValue ce (marginPercentage tv pe) \<noteq> Fin 0
      \<and> p = Fin 0"
    then obtain e1 where e1: "pe = Fin e1" "0 < e1" by (auto elim: isPositiveE)
    have m: "marginPercentage tv pe = fl64 (v / e1)"
      using e1(2) by (simp add: marginPercentage_def v(1) e1(1))
    have "0 \<le> v / e1" using v(2) e1(2) by simp
    from fl64_nonneg[OF this] have "counterTradeValue ce (marginPercentage tv pe) = PosInf
      \<or> (\<exists>r. counterTradeValue ce (marginPercentage tv pe) = Fin r \<and> 0 \<le> r)"
    proof
      assume "fl64 (v / e1) = PosInf"
      then show ?thesis using e2
        by (simp add: counterTradeValue_def m)
    next
      assume "\<exists>r. fl64 (v / e1) = Fin r \<and> 0 \<le> r"
      then obtain r where r: "fl64 (v / e1) = Fin r" "0 \<le> r" by blast
      have "0 \<le> e2 * r" using e2(2) r(2) by simp
      from fl64_nonneg[OF this] show ?thesis
        by (simp add: counterTradeValue_def m e2(1) r(1))
    qed
    with a have "counterTradeValue ce (marginPercentage tv pe) = PosInf
      \<or> (\<exists>r. counterTradeValue ce (marginPercentage tv pe) = Fin r \<and> 0 < r)"
      by (auto simp: less_le)
    then show ?thesis using a by (auto simp: initialCounterQty_def)
  qed
  have c: "cappedQty tv pe ce p ot f = Fin (if ot = ''Market'' then mk else mx)"
    using f(1-4) b(2-4) i by (rule capped_infinite)
  have r: "repairedQty tv pe ce p ot f \<noteq> NaN"
    using c f(5) f(4) b(4) unfolding pr by (rule repaired_not_NaN)
  have "mn \<le> mx" using b by simp
  from final_in_range[OF this r] show ?thesis
    by (simp add: sizedQty_def f)
qed

lemma sized_zero_by_zero: "sizedQty (Fin 0) (Fin 0) ce p ot f = NaN"
  by (simp add: sizer_defs)

text \<open>
  A price of zero under a counter trade value of zero is \<open>0 / 0\<close> again, and the counter
  trade value can be zero with positive equities and a positive executed value: a
  quarter of the least positive number underflows.
\<close>

lemma sized_zero_dividend:
  assumes "counterTradeValue ce (marginPercentage tv pe) = Fin 0"
  shows "sizedQty tv pe ce (Fin 0) ot f = NaN"
  by (simp add: sizedQty_def repairedQty_def repairFires_def cappedQty_def
      finalCounterQty_def minNotionalAdjustedCounterQty_def notionalValue_def
      marketAdjustedCounterQty_def boundedCounterQty_def steppedCounterQty_def
      initialCounterQty_def assms)

lemma price_zero_underflow:
  "isPositive (Fin (1 / 2 ^ 1074)) \<and> isPositive (Fin 4) \<and> isPositive (Fin 1)
   \<and> counterTradeValue (Fin 1) (marginPercentage (Fin (1 / 2 ^ 1074)) (Fin 4)) = Fin 0
   \<and> sizedQty (Fin (1 / 2 ^ 1074)) (Fin 4) (Fin 1) (Fin 0) ot f = NaN"
proof -
  have "(1 / 2 ^ 1074 :: real) / 4 = 1 / 2 ^ 1076" by simp
  then have "marginPercentage (Fin (1 / 2 ^ 1074)) (Fin 4) = Fin 0"
    unfolding marginPercentage_def js_div.simps by (simp only: fl64_underflow) simp
  then have c: "counterTradeValue (Fin 1) (marginPercentage (Fin (1 / 2 ^ 1074)) (Fin 4)) = Fin 0"
    by (simp only: counterTradeValue_def js_mul.simps) (simp add: fl64_def)
  have "(0::real) < 1 / 2 ^ 1074" by simp
  then have "isPositive (Fin (1 / 2 ^ 1074))" unfolding isPositive_def by (simp only: jsnum.case)
  moreover have "isPositive (Fin 4)" "isPositive (Fin 1)" by (simp_all add: isPositive_def)
  ultimately show ?thesis using c sized_zero_dividend[OF c] by (intro conjI)
qed

text \<open>
  Claim C3, as the code has it. When the equity of the trading account or the price is
  zero, nothing fails and the event is not aborted. Once both balances and the
  instrument are fetched and the quantity is serialised, \<open>placeCounterOrder\<close> submits
  the counter order and returns. The quantity it serialises is \<open>NaN\<close> when executed
  value and equity are both zero; it is finite and within
  \<open>[minOrderQty, maxOrderQty]\<close> when the constraints invariant holds and the executed
  value, the counter equity and the other one of equity and price are positive (and, for
  the price \<open>0\<close>, the counter trade value has not underflowed to \<open>0\<close>).
\<close>

theorem zero_divisor_no_failure:
  assumes bal1: "getBalanceOfCoin js (tradingWallet w) ASSUMING_COIN ''trading'' = (t1, Some tb)"
    and bal2: "getBalanceOfCoin js (counterWallet w) ASSUMING_COIN ''counter'' = (t2, Some cb)"
    and info: "getSymbolInfo w (WSAccountOrder.symbol orderData) = (t3, Inr symbolInfo)"
    and zero: "equity tb = Fin 0 \<or> ToNumber js (WSAccountOrder.price orderData) = Fin 0"
    and f: "f = lotSizeNumbers js (lotSizeFilter symbolInfo)"
    and q: "q = sizedQty (parseFloat js (cumExecValue orderData)) (equity tb) (equity cb)
                  (ToNumber js (WSAccountOrder.price orderData))
                  (WSAccountOrder.orderType orderData) f"
    and ser: "toFixed js q (getDecimalPlaces (step f)) = Inr s"
  shows "placeCounterOrder js w orderData =
       (t1 @ t2 @ t3 @ [Log Info ''Placing counter order:'']
        @ sendTelegramMessage w (counterOrderMessage (counterOrder orderData s))
        @ submitCounterOrder w (counterOrder orderData s), Inr ())
     \<and> (parseFloat js (cumExecValue orderData) = Fin 0 \<and> equity tb = Fin 0 \<longrightarrow> q = NaN)
     \<and> (constraintsInvariant f \<and> isPositive (parseFloat js (cumExecValue orderData))
          \<and> isPositive (equity cb)
          \<and> ((equity tb = Fin 0 \<and> isPositive (ToNumber js (WSAccountOrder.price orderData)))
              \<or> (isPositive (equity tb)
                  \<and> counterTradeValue (equity cb)
                        (marginPercentage (parseFloat js (cumExecValue orderData)) (equity tb))
                      \<noteq> Fin 0
                  \<and> ToNumber js (WSAccountOrder.price orderData) = Fin 0))
         \<longrightarrow> js_le (minQty f) q \<and> js_le q (maxQty f))"
proof (intro conjI impI)
  show "placeCounterOrder js w orderData =
       (t1 @ t2 @ t3 @ [Log Info ''Placing counter order:'']
        @ sendTelegramMessage w (counterOrderMessage (counterOrder orderData s))
        @ submitCounterOrder w (counterOrder orderData s), Inr ())"
    using bal1 bal2 info ser unfolding q f by (rule placeCounterOrder_reaches_submit)
next
  assume "parseFloat js (cumExecValue orderData) = Fin 0 \<and> equity tb = Fin 0"
  then show "q = NaN" unfolding q by (simp add: sized_zero_by_zero)
next
  assume a: "constraintsInvariant f \<and> isPositive (parseFloat js (cumExecValue orderData))
          \<and> isPositive (equity cb)
          \<and> ((equity tb = Fin 0 \<and> isPositive (ToNumber js (WSAccountOrder.price orderData)))
              \<or> (isPositive (equity tb)
                  \<and> counterTradeValue (equity cb)
                        (marginPercentage (parseFloat js (cumExecValue orderData)) (equity tb))
                      \<noteq> Fin 0
                  \<and> ToNumber js (WSAccountOrder.price orderData) = Fin 0))"
  then have "js_le (minQty f) q \<and> js_le q (maxQty f)"
    unfolding q by (intro sized_zero_divisor) simp_all
  then show "js_le (minQty f) q" "js_le q (maxQty f)" by simp_all
qed

text \<open>
  The theorem at the filled order (executed value \<open>500\<close>, price \<open>100\<close>) when the
  equity of the trading account is \<open>0\<close>: the quantity is the maximum \<open>100\<close>, and the
  order is submitted with it.
\<close>

theorem zero_divisor_no_failure_witness:
  "getBalanceOfCoin decimalBuiltins
       (tradingWallet (sampleEnv\<lparr>tradingWallet := sampleWallet ''0''\<rparr>)) ASSUMING_COIN ''trading''
     = ([], Some \<lparr>walletBalance = Fin 0, availableToWithdraw = Fin 0, equity = Fin 0\<rparr>)
   \<and> constraintsInvariant
        \<lparr>maxQty = Fin 100, minQty = Fin 1, step = Fin 1, maxMarketQty = Fin 50,
         minNotional = Fin 5\<rparr>
   \<and> sizedQty (Fin 500) (Fin 0) (Fin 1000) (Fin 100) ''Limit''
        \<lparr>maxQty = Fin 100, minQty = Fin 1, step = Fin 1, maxMarketQty = Fin 50,
         minNotional = Fin 5\<rparr> = Fin 100
   \<and> js_le (Fin 1) (sizedQty (Fin 500) (Fin 0) (Fin 1000) (Fin 100) ''Limit''
        \<lparr>maxQty = Fin 100, minQty = Fin 1, step = Fin 1, maxMarketQty = Fin 50,
         minNotional = Fin 5\<rparr>)
   \<and> placeCounterOrder decimalBuiltins (sampleEnv\<lparr>tradingWallet := sampleWallet ''0''\<rparr>)
        sampleOrder
     = ([Log Info ''Placing counter order:'', SubmitOrder (counterOrder sampleOrder ''100''),
         Log Info ''Countertrade result code'', Log Info ''Countertrade result message'',
         Log Info ''Counter order placed:''], Inr ())"
proof -
  define z where "z = sampleEnv\<lparr>tradingWallet := sampleWallet ''0''\<rparr>"
  define f where
    "f = \<lparr>maxQty = Fin 100, minQty = Fin 1, step = Fin 1, maxMarketQty = Fin 50,
          minNotional = Fin 5\<rparr>"
  define info where
    "info = \<lparr>lotSizeFilter =
               \<lparr>maxOrderQty = ''100'', minOrderQty = ''1'', qtyStep = ''1'',
                maxMktOrderQty = ''50'', minNotionalValue = ''5''\<rparr>\<rparr>"
  have bal1: "getBalanceOfCoin decimalBuiltins (tradingWallet z) ASSUMING_COIN ''trading''
     = ([], Some \<lparr>walletBalance = Fin 0, availableToWithdraw = Fin 0, equity = Fin 0\<rparr>)"
    by (simp add: z_def sample_defs getBalanceOfCoin_def ASSUMING_COIN_def message_values)
  have bal2: "getBalanceOfCoin decimalBuiltins (counterWallet z) ASSUMING_COIN ''counter''
     = ([], Some \<lparr>walletBalance = Fin 1000, availableToWithdraw = Fin 1000,
                  equity = Fin 1000\<rparr>)"
    by (simp add: z_def sample_defs getBalanceOfCoin_def ASSUMING_COIN_def message_values)
  have inf: "getSymbolInfo z (WSAccountOrder.symbol sampleOrder) = ([], Inr info)"
    by (simp add: z_def info_def sample_defs getSymbolInfo_def)
  have zero: "equity \<lparr>walletBalance = Fin 0, availableToWithdraw = Fin 0, equity = Fin 0\<rparr> = Fin 0
      \<or> ToNumber decimalBuiltins (WSAccountOrder.price sampleOrder) = Fin 0"
    by simp
  have fe: "f = lotSizeNumbers decimalBuiltins (lotSizeFilter info)"
    by (simp add: f_def info_def lotSizeNumbers_def message_values)
  have tv: "parseFloat decimalBuiltins (cumExecValue sampleOrder) = Fin 500"
    and pr: "ToNumber decimalBuiltins (WSAccountOrder.price sampleOrder) = Fin 100"
    and ot: "WSAccountOrder.orderType sampleOrder = ''Limit''"
    by (simp_all add: sample_defs message_values)
  have inv: "constraintsInvariant f" by (simp add: f_def constraintsInvariant_def)
  have val: "sizedQty (Fin 500) (Fin 0) (Fin 1000) (Fin 100) ''Limit'' f = Fin 100"
    by (simp add: f_def sample_quantities)
  have qe: "Fin 100 = sizedQty (parseFloat decimalBuiltins (cumExecValue sampleOrder))
      (equity \<lparr>walletBalance = Fin 0, availableToWithdraw = Fin 0, equity = Fin 0\<rparr>)
      (equity \<lparr>walletBalance = Fin 1000, availableToWithdraw = Fin 1000, equity = Fin 1000\<rparr>)
      (ToNumber decimalBuiltins (WSAccountOrder.price sampleOrder))
      (WSAccountOrder.orderType sampleOrder) f"
    by (simp add: tv pr ot val)
  have ser: "toFixed decimalBuiltins (Fin 100) (getDecimalPlaces (step f)) = Inr ''100''"
    by (simp add: f_def sample_strings)
  have pos: "isPositive (Fin 500)" "isPositive (Fin 1000)" "isPositive (Fin 100)"
    by (simp_all add: isPositive_def)
  have sub: "submitCounterOrder z (counterOrder sampleOrder ''100'')
      = [SubmitOrder (counterOrder sampleOrder ''100''), Log Info ''Countertrade result code'',
         Log Info ''Countertrade result message'', Log Info ''Counter order placed:'']"
    and tg: "sendTelegramMessage z m = []" for m
    by (simp_all add: z_def sample_defs submitCounterOrder_def sendTelegramMessage_def)
  from zero_divisor_no_failure[OF bal1 bal2 inf zero fe qe ser] inv pos bal1 val
  show ?thesis
    unfolding z_def[symmetric] f_def[symmetric]
    by (simp add: tv pr sub tg f_def)
qed

text \<open>
  Claim C3 as it is written fails: no division is checked. With equity \<open>0\<close> in the
  trading account and a new order with nothing executed, the margin fraction \<open>0 / 0\<close> is
  \<open>NaN\<close>, no failure is raised, and the counter order is submitted with the quantity
  string \<open>NaN\<close>.
\<close>

theorem zero_equity_order_submitted:
  "marginPercentage (Fin 0) (Fin 0) = NaN
   \<and> placeCounterOrder decimalBuiltins (sampleEnv\<lparr>tradingWallet := sampleWallet ''0''\<rparr>)
        (sampleOrder\<lparr>cumExecValue := ''0'', orderStatus := ''New''\<rparr>)
     = ([Log Info ''Placing counter order:'',
         SubmitOrder
           (counterOrder (sampleOrder\<lparr>cumExecValue := ''0'', orderStatus := ''New''\<rparr>) ''NaN''),
         Log Info ''Countertrade result code'', Log Info ''Countertrade result message'',
         Log Info ''Counter order placed:''], Inr ())"
  by (simp add: sample_defs orch_defs message_values sample_quantities sample_strings
      marginPercentage_def)

text \<open>
  Claim C7 on the code. A batch of two orders that both qualify. When the instrument
  query answers with a result code other than \<open>0\<close>, the exception of \<open>getSymbolInfo\<close>
  leaves \<open>placeCounterOrder\<close> and the handler, and the second order is never looked at;
  so does the \<open>RangeError\<close> of \<open>toFixed\<close> when the quantity step is \<open>10\<close>. When the
  balance request is rejected instead, both orders are processed and the handler
  returns. And \<open>checkFetchBalances\<close> always ends the process with code \<open>0\<close>.
\<close>

theorem instrument_failure_leaves_handler:
  "respondToOrder sampleOrder \<and> respondToOrder secondOrder
   \<and> onUpdate decimalBuiltins (everyOrder (instrumentsAnswer (sampleInstruments 10001 ''1'')))
        [sampleOrder, secondOrder]
     = ([Log Info ''New original order detected:'',
         Log Error ''Error fetching symbol info for BTCUSDT:''],
        Inl (JsError ''Failed to get symbol info for BTCUSDT''))
   \<and> onUpdate decimalBuiltins (everyOrder (instrumentsAnswer (sampleInstruments 0 ''10'')))
        [sampleOrder, secondOrder]
     = ([Log Info ''New original order detected:''], Inl RangeError)
   \<and> onUpdate decimalBuiltins (everyOrder (sampleEnv\<lparr>tradingWallet := Rejected TransportError\<rparr>))
        [sampleOrder, secondOrder]
     = ([Log Info ''New original order detected:'',
         Log Error ''Exception when fetching trading account balance:'',
         Log Error ''Error fetching trading account balance'',
         Log Info ''New original order detected:'',
         Log Error ''Exception when fetching trading account balance:'',
         Log Error ''Error fetching trading account balance''], Inr ())
   \<and> last (checkFetchBalances js w) = ProcessExit 0"
proof -
  have r: "respondToOrder sampleOrder" "respondToOrder secondOrder"
    by (simp_all add: sample_defs classify_defs)
  have a: "onUpdate decimalBuiltins (everyOrder (instrumentsAnswer (sampleInstruments 10001 ''1'')))
        [sampleOrder, secondOrder]
     = ([Log Info ''New original order detected:'',
         Log Error ''Error fetching symbol info for BTCUSDT:''],
        Inl (JsError ''Failed to get symbol info for BTCUSDT''))"
    by (simp add: sample_defs orch_defs classify_defs message_values)
  have b: "onUpdate decimalBuiltins (everyOrder (instrumentsAnswer (sampleInstruments 0 ''10'')))
        [sampleOrder, secondOrder]
     = ([Log Info ''New original order detected:''], Inl RangeError)"
    by (simp add: sample_defs orch_defs classify_defs message_values sample_quantities
        sample_strings)
  have c: "onUpdate decimalBuiltins (everyOrder (sampleEnv\<lparr>tradingWallet := Rejected TransportError\<rparr>))
        [sampleOrder, secondOrder]
     = ([Log Info ''New original order detected:'',
         Log Error ''Exception when fetching trading account balance:'',
         Log Error ''Error fetching trading account balance'',
         Log Info ''New original order detected:'',
         Log Error ''Exception when fetching trading account balance:'',
         Log Error ''Error fetching trading account balance''], Inr ())"
    by (simp add: sample_defs orch_defs classify_defs message_values)
  have d: "last (checkFetchBalances js w) = ProcessExit 0"
    by (simp add: checkFetchBalances_def split: prod.splits)
  from r a b c d show ?thesis by (intro conjI)
qed
text \<open>
  Claim C9 on the code. The number of places is \<open>-floor(log10(qtyStep))\<close>, which is
  negative for a step from \<open>10\<close> on, and \<open>toFixed\<close> then throws a \<open>RangeError\<close> instead
  of returning a string. With \<open>qtyStep = 10\<close> the places are \<open>-1\<close>: the quantity \<open>1\<close> of
  the filled order is not serialised, the exception leaves \<open>placeCounterOrder\<close>, and no
  order is submitted.
\<close>

theorem toFixed_step_ten_RangeError:
  "getDecimalPlaces (decimalLiteral ''10'') = Fin (- 1)
   \<and> toFixed decimalBuiltins (Fin 1) (getDecimalPlaces (decimalLiteral ''10'')) = Inl RangeError
   \<and> placeCounterOrder decimalBuiltins (instrumentsAnswer (sampleInstruments 0 ''10''))
        sampleOrder = ([], Inl RangeError)"
proof -
  have g: "getDecimalPlaces (Fin 10) = Fin (- 1)"
    by (rule getDecimalPlaces_examples)
  have t: "toFixed decimalBuiltins (Fin 1) (Fin (- 1)) = Inl RangeError"
    by (simp add: toFixed_def)
  have p: "placeCounterOrder decimalBuiltins (instrumentsAnswer (sampleInstruments 0 ''10''))
        sampleOrder = ([], Inl RangeError)"
    by (simp add: sample_defs orch_defs message_values sample_quantities sample_strings)
  from g t p show ?thesis by (simp add: message_values)
qed

end
